theory Spec2Isabelle
  imports Complex_Main
begin

section \<open>Conventions of the embedding\<close>

text \<open>
  The functions of \<^verbatim>\<open>aquacrop/solution_aot.py\<close> that the properties below are about are
  embedded as HOL functions under their Python names. A loop body, a branch or a formula
  that a property refers to is a definition of its own, named after what it computes.

  Floating-point numbers are modelled as real numbers (exact arithmetic, no rounding
  error), except in \<open>biomass_accumulation\<close>, whose own guard is about NaN. Integer-valued
  fields are \<open>int\<close>, numpy arrays are lists.

  A Python call that raises returns \<open>Inl\<close> of the exception; a call that returns \<open>v\<close>
  returns \<open>Inr v\<close>. A division by zero ends the call with \<open>ZeroDivisionError\<close> (what Python
  and numba's default error model do; numpy scalars would give an infinity or a NaN, which
  a real number cannot stand for), and so does a logarithm or a power outside its domain,
  with \<open>FloatingPointError\<close>. Reading a local variable that no branch has assigned is
  \<open>UnboundLocalError\<close>; arrays whose shapes do not fit are \<open>ValueError\<close>.
\<close>

datatype error =
    IndexError
  | AssertionError
  | ZeroDivisionError
  | FloatingPointError
  | UnboundLocalError
  | ValueError

definition ebind :: "error + 'a \<Rightarrow> ('a \<Rightarrow> error + 'b) \<Rightarrow> error + 'b" where
  "ebind m f = (case m of Inl e \<Rightarrow> Inl e | Inr x \<Rightarrow> f x)"

text \<open>Array read \<open>xs[i]\<close> with a natural-number index.\<close>

definition nth_e :: "'a list \<Rightarrow> nat \<Rightarrow> error + 'a" where
  "nth_e xs i = (if i < length xs then Inr (xs ! i) else Inl IndexError)"


text \<open>True division \<open>a / b\<close>.\<close>

definition div_e :: "real \<Rightarrow> real \<Rightarrow> error + real" where
  "div_e a b = (if b = 0 then Inl ZeroDivisionError else Inr (a / b))"

text \<open>Python's \<open>round(x)\<close> (ties go to the even integer) and \<open>round(x, 2)\<close>.\<close>

definition py_round :: "real \<Rightarrow> int" where
  "py_round x =
     (let f = \<lfloor>x\<rfloor>; d = x - of_int f
      in if d < 1 / 2 then f
         else if 1 / 2 < d then f + 1
         else if even f then f else f + 1)"

definition round2 :: "real \<Rightarrow> real" where
  "round2 x = of_int (py_round (x * 100)) / 100"

section \<open>Growing degree days\<close>

definition growing_degree_day :: "int \<Rightarrow> real \<Rightarrow> real \<Rightarrow> real \<Rightarrow> real \<Rightarrow> error + real" where
  "growing_degree_day GDDmethod Tupp Tbase Tmax Tmin =
     (if GDDmethod = 1 then
        (let Tmean = (Tmax + Tmin) / 2;
             Tmean = min Tmean Tupp;
             Tmean = max Tmean Tbase
         in Inr (Tmean - Tbase))
      else if GDDmethod = 2 then
        (let Tmax = min Tmax Tupp;
             Tmax = max Tmax Tbase;
             Tmin = min Tmin Tupp;
             Tmin = max Tmin Tbase;
             Tmean = (Tmax + Tmin) / 2
         in Inr (Tmean - Tbase))
      else if GDDmethod = 3 then
        (let Tmax = min Tmax Tupp;
             Tmax = max Tmax Tbase;
             Tmin = min Tmin Tupp;
             Tmean = (Tmax + Tmin) / 2;
             Tmean = max Tmean Tbase
         in Inr (Tmean - Tbase))
      else Inl UnboundLocalError)"

section \<open>Root-zone and top-soil water accounting\<close>

text \<open>The arrays of \<open>SoilProfileClass\<close> that \<open>root_zone_water\<close> reads.\<close>

record SoilProfileClass =
  prof_dz :: "real list"
  prof_dzsum :: "real list"
  prof_th_s :: "real list"
  prof_th_fc :: "real list"
  prof_th_wp :: "real list"
  prof_th_dry :: "real list"

record TAWClass =
  TAW_Rz :: real
  TAW_Zt :: real

record DrClass =
  Dr_Rz :: real
  Dr_Zt :: real

record thRZClass =
  thRZ_Act :: real
  thRZ_S :: real
  thRZ_FC :: real
  thRZ_WP :: real
  thRZ_Dry :: real
  thRZ_Aer :: real

text \<open>The six counters of the root-zone loop.\<close>

record RootZoneCounters =
  WrAct :: real
  WrS :: real
  WrFC :: real
  WrWP :: real
  WrDry :: real
  WrAer :: real

text \<open>\<open>np.argwhere(xs >= v).flatten()[0]\<close>: the first index whose entry is at least \<open>v\<close>.\<close>

definition first_index_ge :: "real list \<Rightarrow> real \<Rightarrow> error + nat" where
  "first_index_ge xs v =
     (if list_ex (\<lambda>x. v \<le> x) xs then Inr (length (takeWhile (\<lambda>x. \<not> v \<le> x) xs))
      else Inl IndexError)"

text \<open>Fraction of compartment \<open>ii\<close> that lies above \<open>depth\<close>.\<close>

definition cover_factor :: "SoilProfileClass \<Rightarrow> real \<Rightarrow> nat \<Rightarrow> error + real" where
  "cover_factor prof depth ii =
     ebind (nth_e (prof_dzsum prof) ii) (\<lambda>zs.
       if depth < zs then
         ebind (nth_e (prof_dz prof) ii) (\<lambda>d.
         ebind (div_e (zs - depth) d) (\<lambda>q. Inr (1 - q)))
       else Inr 1)"

text \<open>One pass of the loop \<open>for ii in range(comp_sto + 1)\<close>.\<close>

definition root_zone_step ::
  "SoilProfileClass \<Rightarrow> real list \<Rightarrow> real \<Rightarrow> real \<Rightarrow> nat \<Rightarrow> RootZoneCounters
     \<Rightarrow> error + RootZoneCounters" where
  "root_zone_step prof InitCond_th Crop_Aer rootdepth ii w =
     ebind (cover_factor prof rootdepth ii) (\<lambda>factor.
     ebind (nth_e InitCond_th ii) (\<lambda>th.
     ebind (nth_e (prof_dz prof) ii) (\<lambda>d.
     ebind (nth_e (prof_th_s prof) ii) (\<lambda>s.
     ebind (nth_e (prof_th_fc prof) ii) (\<lambda>fc.
     ebind (nth_e (prof_th_wp prof) ii) (\<lambda>wp.
     ebind (nth_e (prof_th_dry prof) ii) (\<lambda>dry.
       Inr \<lparr> WrAct = WrAct w + round2 (factor * 1000 * th * d),
             WrS = WrS w + round2 (factor * 1000 * s * d),
             WrFC = WrFC w + round2 (factor * 1000 * fc * d),
             WrWP = WrWP w + round2 (factor * 1000 * wp * d),
             WrDry = WrDry w + round2 (factor * 1000 * dry * d),
             WrAer = WrAer w + round2 (factor * 1000 * (s - Crop_Aer / 100) * d) \<rparr>)))))))"

fun root_zone_loop ::
  "SoilProfileClass \<Rightarrow> real list \<Rightarrow> real \<Rightarrow> real \<Rightarrow> nat list \<Rightarrow> RootZoneCounters
     \<Rightarrow> error + RootZoneCounters" where
  "root_zone_loop prof InitCond_th Crop_Aer rootdepth [] w = Inr w"
| "root_zone_loop prof InitCond_th Crop_Aer rootdepth (ii # rest) w =
     ebind (root_zone_step prof InitCond_th Crop_Aer rootdepth ii w)
       (root_zone_loop prof InitCond_th Crop_Aer rootdepth rest)"

text \<open>
  The first half of \<open>root_zone_water\<close>: the rounded root depth, the compartments it
  spans, and the counters after the loop (before \<open>WrAct\<close> is floored at zero).
\<close>

definition root_zone_counters ::
  "SoilProfileClass \<Rightarrow> real \<Rightarrow> real list \<Rightarrow> real \<Rightarrow> real \<Rightarrow> error + RootZoneCounters" where
  "root_zone_counters prof InitCond_Zroot InitCond_th Crop_Zmin Crop_Aer =
     (let rootdepth = round2 (max InitCond_Zroot Crop_Zmin)
      in ebind (first_index_ge (prof_dzsum prof) rootdepth) (\<lambda>comp_sto.
           root_zone_loop prof InitCond_th Crop_Aer rootdepth [0 ..< comp_sto + 1]
             \<lparr> WrAct = 0, WrS = 0, WrFC = 0, WrWP = 0, WrDry = 0, WrAer = 0 \<rparr>))"

text \<open>One pass of the top-soil loop; the counters are \<open>(WrAct_Zt, WrFC_Zt, WrWP_Zt)\<close>.\<close>

definition top_soil_step ::
  "SoilProfileClass \<Rightarrow> real list \<Rightarrow> real \<Rightarrow> nat \<Rightarrow> real \<times> real \<times> real
     \<Rightarrow> error + real \<times> real \<times> real" where
  "top_soil_step prof InitCond_th ztopdepth ii w =
     (case w of (WrAct_Zt, WrFC_Zt, WrWP_Zt) \<Rightarrow>
        ebind (cover_factor prof ztopdepth ii) (\<lambda>factor.
        ebind (nth_e InitCond_th ii) (\<lambda>th.
        ebind (nth_e (prof_dz prof) ii) (\<lambda>d.
        ebind (nth_e (prof_th_fc prof) ii) (\<lambda>fc.
        ebind (nth_e (prof_th_wp prof) ii) (\<lambda>wp.
          Inr (WrAct_Zt + factor * 1000 * th * d,
               WrFC_Zt + factor * 1000 * fc * d,
               WrWP_Zt + factor * 1000 * wp * d)))))))"

fun top_soil_loop ::
  "SoilProfileClass \<Rightarrow> real list \<Rightarrow> real \<Rightarrow> nat list \<Rightarrow> real \<times> real \<times> real
     \<Rightarrow> error + real \<times> real \<times> real" where
  "top_soil_loop prof InitCond_th ztopdepth [] w = Inr w"
| "top_soil_loop prof InitCond_th ztopdepth (ii # rest) w =
     ebind (top_soil_step prof InitCond_th ztopdepth ii w)
       (top_soil_loop prof InitCond_th ztopdepth rest)"

text \<open>
  The branch \<open>rootdepth > Soil_zTop\<close> of \<open>root_zone_water\<close>: depletion and total
  available water of the top soil, \<open>(Dr.Zt, TAW.Zt)\<close>.
\<close>

definition top_soil_water ::
  "SoilProfileClass \<Rightarrow> real list \<Rightarrow> real \<Rightarrow> error + real \<times> real" where
  "top_soil_water prof InitCond_th Soil_zTop =
     (let ztopdepth = round2 Soil_zTop;
          comp_sto = length (filter (\<lambda>z. z \<le> ztopdepth) (prof_dzsum prof))
      in if \<not> 0 < comp_sto then Inl AssertionError
         else
           ebind (top_soil_loop prof InitCond_th ztopdepth [0 ..< comp_sto] (0, 0, 0))
             (\<lambda>(WrAct_Zt, WrFC_Zt, WrWP_Zt).
                let WrAct_Zt = (if WrAct_Zt < 0 then 0 else WrAct_Zt);
                    TAW_Zt' = max (WrFC_Zt - WrWP_Zt) 0;
                    Dr_Zt' = min (WrFC_Zt - WrAct_Zt) TAW_Zt'
                in Inr (Dr_Zt', TAW_Zt')))"

definition root_zone_water ::
  "SoilProfileClass \<Rightarrow> real \<Rightarrow> real list \<Rightarrow> real \<Rightarrow> real \<Rightarrow> real
     \<Rightarrow> error + real \<times> DrClass \<times> TAWClass \<times> thRZClass" where
  "root_zone_water prof InitCond_Zroot InitCond_th Soil_zTop Crop_Zmin Crop_Aer =
     (let rootdepth = round2 (max InitCond_Zroot Crop_Zmin)
      in ebind (root_zone_counters prof InitCond_Zroot InitCond_th Crop_Zmin Crop_Aer) (\<lambda>w.
         let WrAct' = (if WrAct w < 0 then 0 else WrAct w);
             TAW_Rz' = max (WrFC w - WrWP w) 0;
             Dr_Rz' = min (WrFC w - WrAct') TAW_Rz'
         in
         ebind (div_e WrAct' (rootdepth * 1000)) (\<lambda>Act.
         ebind (div_e (WrS w) (rootdepth * 1000)) (\<lambda>S.
         ebind (div_e (WrFC w) (rootdepth * 1000)) (\<lambda>FC.
         ebind (div_e (WrWP w) (rootdepth * 1000)) (\<lambda>WP.
         ebind (div_e (WrDry w) (rootdepth * 1000)) (\<lambda>Dry.
         ebind (div_e (WrAer w) (rootdepth * 1000)) (\<lambda>Aer.
         ebind (if Soil_zTop < rootdepth then top_soil_water prof InitCond_th Soil_zTop
                else Inr (Dr_Rz', TAW_Rz')) (\<lambda>(Dr_Zt', TAW_Zt').
           Inr (WrAct',
                \<lparr> Dr_Rz = Dr_Rz', Dr_Zt = Dr_Zt' \<rparr>,
                \<lparr> TAW_Rz = TAW_Rz', TAW_Zt = TAW_Zt' \<rparr>,
                \<lparr> thRZ_Act = Act, thRZ_S = S, thRZ_FC = FC, thRZ_WP = WP,
                  thRZ_Dry = Dry, thRZ_Aer = Aer \<rparr>))))))))))"

section \<open>Crop parameters, daily condition, irrigation management\<close>

text \<open>
  The fields of \<open>CropClass\<close> (prefix \<open>cr_\<close>), of the daily condition \<open>InitCondClass\<close>
  (prefix \<open>ic_\<close>) and of \<open>IrrMngtClass\<close> (prefix \<open>im_\<close>) that the functions below read
  or write. Python's \<open>NewCond = InitCond\<close> makes both names refer to one object, so each
  function threads a single condition record.
\<close>

record CropClass =
  cr_Zmin :: real
  cr_Aer :: real
  cr_p_up :: "real list"
  cr_p_lo :: "real list"
  cr_fshape_w :: "real list"
  cr_ETadj :: int
  cr_beta :: real
  cr_CropType :: int
  cr_dHI_pre :: real
  cr_FloweringCD :: real
  cr_CCmin :: real
  cr_exc :: real
  cr_HI0 :: real
  cr_dHI0 :: real
  cr_HIstartCD :: real
  cr_CanopyDevEndCD :: real
  cr_HIendCD :: real
  cr_YldFormCD :: real
  cr_a_HI :: real
  cr_b_HI :: real
  cr_PolHeatStress :: int
  cr_PolColdStress :: int
  cr_Tmax_lo :: real
  cr_Tmax_up :: real
  cr_Tmin_lo :: real
  cr_Tmin_up :: real
  cr_fshape_b :: real

record InitCondClass =
  ic_Zroot :: real
  ic_th :: "real list"
  ic_Tpot :: real
  ic_Epot :: real
  ic_Depletion :: real
  ic_TAW :: real
  ic_DAP :: int
  ic_DelayedCDs :: int
  ic_GrowthStage :: int
  ic_TimeStepCounter :: int
  ic_IrrCum :: real
  ic_tEarlySen :: real
  ic_CC :: real
  ic_CC_NS :: real
  ic_CCadj :: real
  ic_CCadj_NS :: real
  ic_CCxAct :: real
  ic_CCxAct_NS :: real
  ic_CCxW :: real
  ic_CCxW_NS :: real
  ic_B :: real
  ic_B_NS :: real
  ic_YieldForm :: bool
  ic_PreAdj :: bool
  ic_HIref :: real
  ic_HI :: real
  ic_HIadj :: real
  ic_Fpre :: real
  ic_Fpol :: real
  ic_Fpost :: real
  ic_fpost_upp :: real
  ic_fpost_dwn :: real
  ic_sCor1 :: real
  ic_sCor2 :: real


section \<open>Irrigation\<close>




section \<open>Water stress\<close>

record KswClass =
  Ksw_Exp :: real
  Ksw_Sto :: real
  Ksw_Sen :: real
  Ksw_Pol :: real
  Ksw_StoLin :: real

text \<open>\<open>np.log(x)\<close> and \<open>np.log10(x)\<close>; outside the domain numpy gives NaN or \<open>-inf\<close>.\<close>

definition ln_e :: "real \<Rightarrow> error + real" where
  "ln_e x = (if 0 < x then Inr (ln x) else Inl FloatingPointError)"

definition log10_e :: "real \<Rightarrow> error + real" where
  "log10_e x = (if 0 < x then Inr (log 10 x) else Inl FloatingPointError)"

text \<open>The adjustment of one threshold for the day's reference evapotranspiration.\<close>

definition Et0_adjust :: "real \<Rightarrow> real \<Rightarrow> error + real" where
  "Et0_adjust Et0 p =
     ebind (log10_e (10 - 9 * p)) (\<lambda>l. Inr (p + (0.04 * (5 - Et0)) * l))"

text \<open>The loop \<open>for ii in range(3)\<close> on one array of four thresholds.\<close>

definition Et0_adjust_first3 :: "real \<Rightarrow> real list \<Rightarrow> error + real list" where
  "Et0_adjust_first3 Et0 ps =
     ebind (Et0_adjust Et0 (ps ! 0)) (\<lambda>a.
     ebind (Et0_adjust Et0 (ps ! 1)) (\<lambda>b.
     ebind (Et0_adjust Et0 (ps ! 2)) (\<lambda>c. Inr (ps[0 := a, 1 := b, 2 := c]))))"

text \<open>
  The first half of \<open>water_stress\<close>: the thresholds \<open>(p_up, p_lo)\<close> after the adjustment
  for Et0, the tightening of the senescence threshold and the clamp to \<open>[0, 1]\<close>.
  A call of \<open>water_stress\<close> can only return when \<open>Crop.p_up\<close> has four entries and
  \<open>Crop.p_lo\<close> has four or one (numpy broadcasts a one-entry array); for any other
  lengths the Python raises (a broadcasting \<open>ValueError\<close>, or an \<open>IndexError\<close> at a later
  read), and the model reports \<open>ValueError\<close>.
\<close>

definition water_stress_thresholds ::
  "CropClass \<Rightarrow> InitCondClass \<Rightarrow> real \<Rightarrow> bool \<Rightarrow> error + real list \<times> real list" where
  "water_stress_thresholds Crop InitCond Et0 beta =
     (if length (cr_p_up Crop) = 4 \<and> (length (cr_p_lo Crop) = 4 \<or> length (cr_p_lo Crop) = 1)
      then
        (let p_up = cr_p_up Crop;
             p_lo = (if length (cr_p_lo Crop) = 1 then replicate 4 (cr_p_lo Crop ! 0)
                     else cr_p_lo Crop)
         in
         ebind (if cr_ETadj Crop = 1 then
                  ebind (Et0_adjust_first3 Et0 p_up) (\<lambda>p_up.
                  ebind (Et0_adjust_first3 Et0 p_lo) (\<lambda>p_lo. Inr (p_up, p_lo)))
                else Inr (p_up, p_lo)) (\<lambda>(p_up, p_lo).
         let p_up = (if beta \<and> 0 < ic_tEarlySen InitCond
                     then p_up[2 := p_up ! 2 * (1 - cr_beta Crop / 100)] else p_up);
             p_up = map (\<lambda>p. max p 0) p_up;
             p_lo = map (\<lambda>p. max p 0) p_lo;
             p_up = map (\<lambda>p. min p 1) p_up;
             p_lo = map (\<lambda>p. min p 1) p_lo
         in Inr (p_up, p_lo)))
      else Inl ValueError)"

text \<open>
  The relative depletion \<open>Drel[ii]\<close> of one stress type. When no branch of the Python's
  \<open>if/elif/elif\<close> applies, the entry keeps the zero of \<open>np.zeros\<close>.
\<close>

definition relative_depletion :: "real \<Rightarrow> real \<Rightarrow> real \<Rightarrow> real \<Rightarrow> error + real" where
  "relative_depletion Dr TAW p_up_ii p_lo_ii =
     (if Dr \<le> p_up_ii * TAW then Inr 0
      else if p_up_ii * TAW < Dr \<and> Dr < p_lo_ii * TAW then
        ebind (div_e Dr TAW) (\<lambda>q.
        ebind (div_e (p_lo_ii - q) (p_lo_ii - p_up_ii)) (\<lambda>r. Inr (1 - r)))
      else if p_lo_ii * TAW \<le> Dr then Inr 1
      else Inr 0)"

text \<open>The coefficient \<open>Ks[ii]\<close> from the relative depletion and the shape factor.\<close>

definition stress_coefficient :: "real \<Rightarrow> real \<Rightarrow> error + real" where
  "stress_coefficient Drel_ii fshape =
     ebind (div_e (exp (Drel_ii * fshape) - 1) (exp fshape - 1)) (\<lambda>q. Inr (1 - q))"

definition water_stress ::
  "CropClass \<Rightarrow> InitCondClass \<Rightarrow> real \<Rightarrow> real \<Rightarrow> real \<Rightarrow> bool \<Rightarrow> error + KswClass" where
  "water_stress Crop InitCond Dr TAW Et0 beta =
     ebind (water_stress_thresholds Crop InitCond Et0 beta) (\<lambda>(p_up, p_lo).
     ebind (relative_depletion Dr TAW (p_up ! 0) (p_lo ! 0)) (\<lambda>Drel0.
     ebind (relative_depletion Dr TAW (p_up ! 1) (p_lo ! 1)) (\<lambda>Drel1.
     ebind (relative_depletion Dr TAW (p_up ! 2) (p_lo ! 2)) (\<lambda>Drel2.
     ebind (relative_depletion Dr TAW (p_up ! 3) (p_lo ! 3)) (\<lambda>Drel3.
     ebind (nth_e (cr_fshape_w Crop) 0) (\<lambda>f0.
     ebind (stress_coefficient Drel0 f0) (\<lambda>Ks0.
     ebind (nth_e (cr_fshape_w Crop) 1) (\<lambda>f1.
     ebind (stress_coefficient Drel1 f1) (\<lambda>Ks1.
     ebind (nth_e (cr_fshape_w Crop) 2) (\<lambda>f2.
     ebind (stress_coefficient Drel2 f2) (\<lambda>Ks2.
       Inr \<lparr> Ksw_Exp = Ks0, Ksw_Sto = Ks1, Ksw_Sen = Ks2,
             Ksw_Pol = 1 - Drel3, Ksw_StoLin = 1 - Drel1 \<rparr>)))))))))))"

section \<open>Canopy cover\<close>

text \<open>The two formulas of the growth mode of \<open>cc_development\<close>.\<close>

definition cc_exponential_growth :: "real \<Rightarrow> real \<Rightarrow> real \<Rightarrow> real" where
  "cc_exponential_growth CCo CGC dt = CCo * exp (CGC * dt)"

definition cc_exponential_decay :: "real \<Rightarrow> real \<Rightarrow> real \<Rightarrow> real \<Rightarrow> real" where
  "cc_exponential_decay CCo CCx CGC dt = CCx - 0.25 * (CCx / CCo) * CCx * exp (- CGC * dt)"

definition cc_development ::
  "real \<Rightarrow> real \<Rightarrow> real \<Rightarrow> real \<Rightarrow> real \<Rightarrow> string \<Rightarrow> real \<Rightarrow> error + real" where
  "cc_development CCo CCx CGC CDC dt Mode CCx0 =
     ebind
       (if Mode = ''Growth'' then
          (let CC = cc_exponential_growth CCo CGC dt in
           ebind (if CCx / 2 < CC then
                    (if CCo = 0 then Inl ZeroDivisionError
                     else Inr (cc_exponential_decay CCo CCx CGC dt))
                  else Inr CC) (\<lambda>CC.
           Inr (if CCx < CC then CCx else CC)))
        else if Mode = ''Decline'' then
          (if CCx < 0.001 then Inr 0
           else
             ebind (div_e (CCx + 2.29) (CCx0 + 2.29)) (\<lambda>q.
             ebind (div_e (dt * CDC * 3.33 * q) (CCx + 2.29)) (\<lambda>r.
               Inr (CCx * (1 - 0.05 * (exp r - 1))))))
        else Inl UnboundLocalError)
       (\<lambda>CC. Inr (if 1 < CC then 1 else if CC < 0 then 0 else CC))"

definition cc_required_time ::
  "real \<Rightarrow> real \<Rightarrow> real \<Rightarrow> real \<Rightarrow> real \<Rightarrow> string \<Rightarrow> error + real" where
  "cc_required_time CCprev CCo CCx CGC CDC Mode =
     (if Mode = ''CGC'' then
        ebind (if CCprev \<le> CCx / 2 then
                 ebind (div_e CCprev CCo) ln_e
               else
                 ebind (div_e (0.25 * CCx * CCx) CCo) (\<lambda>q.
                 ebind (div_e q (CCx - CCprev)) ln_e)) (\<lambda>CGCx.
        div_e CGCx CGC)
      else if Mode = ''CDC'' then
        ebind (div_e CCprev CCx) (\<lambda>q.
        ebind (ln_e (1 + (1 - q) / 0.05)) (\<lambda>l.
        ebind (div_e CDC CCx) (\<lambda>r.
        div_e l r)))
      else Inl UnboundLocalError)"

text \<open>
  The end of \<open>canopy_cover\<close>. In the growing season, once canopy development has set
  \<open>NewCond.CC\<close> and \<open>NewCond.CC_NS\<close>, the function raises the potential cover to the
  actual one and computes the covers adjusted for micro-advective effects; outside the
  growing season it sets the canopy fields to zero.
\<close>

definition canopy_cover_adjusted :: "real \<Rightarrow> real" where
  "canopy_cover_adjusted CC = (1.72 * CC) - CC ^ 2 + (0.3 * CC ^ 3)"

definition canopy_cover_finish ::
  "InitCondClass \<Rightarrow> real \<Rightarrow> real \<Rightarrow> bool \<Rightarrow> InitCondClass" where
  "canopy_cover_finish NewCond tCCadj Crop_CanopyDevEnd GrowingSeason =
     (if GrowingSeason then
        (let NewCond =
               (if ic_CC_NS NewCond < ic_CC NewCond then
                  (let NewCond = NewCond\<lparr> ic_CC_NS := ic_CC NewCond \<rparr>
                   in if tCCadj < Crop_CanopyDevEnd
                      then NewCond\<lparr> ic_CCxAct_NS := ic_CC_NS NewCond \<rparr> else NewCond)
                else NewCond);
             NewCond = NewCond\<lparr> ic_CCadj := canopy_cover_adjusted (ic_CC NewCond) \<rparr>;
             NewCond = NewCond\<lparr> ic_CCadj_NS := canopy_cover_adjusted (ic_CC_NS NewCond) \<rparr>
         in NewCond)
      else
        NewCond\<lparr> ic_CC := 0, ic_CCadj := 0, ic_CC_NS := 0, ic_CCadj_NS := 0, ic_CCxW := 0,
                 ic_CCxAct := 0, ic_CCxW_NS := 0, ic_CCxAct_NS := 0 \<rparr>)"

section \<open>Aeration stress\<close>

definition aeration_stress :: "int \<Rightarrow> int \<Rightarrow> thRZClass \<Rightarrow> error + real \<times> int" where
  "aeration_stress NewCond_AerDays Crop_LagAer thRZ =
     (if thRZ_Aer thRZ < thRZ_Act thRZ then
        ebind
          (if NewCond_AerDays < Crop_LagAer then
             ebind (div_e (thRZ_S thRZ - thRZ_Act thRZ) (thRZ_S thRZ - thRZ_Aer thRZ)) (\<lambda>q.
             let stress = 1 - q
             in Inr (1 - ((of_int NewCond_AerDays / 3) * stress)))
           else if Crop_LagAer \<le> NewCond_AerDays then
             div_e (thRZ_S thRZ - thRZ_Act thRZ) (thRZ_S thRZ - thRZ_Aer thRZ)
           else Inl UnboundLocalError) (\<lambda>Ksa_Aer.
        let NewCond_AerDays = NewCond_AerDays + 1;
            NewCond_AerDays = (if Crop_LagAer < NewCond_AerDays then Crop_LagAer
                               else NewCond_AerDays)
        in Inr (Ksa_Aer, NewCond_AerDays))
      else Inr (1, 0))"

section \<open>Biomass accumulation\<close>

text \<open>
  \<open>biomass_accumulation\<close> guards one of its increments with \<open>np.isnan\<close>, so for this
  function a float is a real number or one of the special values of IEEE 754 (rounding,
  overflow and the sign of zero are left out; a zero divisor counts as \<open>+0\<close>).
\<close>

datatype float64 = Finite real | PosInf | NegInf | NaN

fun f_add :: "float64 \<Rightarrow> float64 \<Rightarrow> float64" where
  "f_add NaN y = NaN"
| "f_add x NaN = NaN"
| "f_add (Finite a) (Finite b) = Finite (a + b)"
| "f_add PosInf NegInf = NaN"
| "f_add NegInf PosInf = NaN"
| "f_add PosInf y = PosInf"
| "f_add NegInf y = NegInf"
| "f_add (Finite a) y = y"

fun f_neg :: "float64 \<Rightarrow> float64" where
  "f_neg (Finite a) = Finite (- a)"
| "f_neg PosInf = NegInf"
| "f_neg NegInf = PosInf"
| "f_neg NaN = NaN"

definition f_sub :: "float64 \<Rightarrow> float64 \<Rightarrow> float64" where
  "f_sub x y = f_add x (f_neg y)"

text \<open>
  The product of an infinity (\<open>+inf\<close> when \<open>positive\<close>, else \<open>-inf\<close>) and the finite factor
  \<open>a\<close>; the quotient of a finite \<open>a\<close> by zero has the same form.
\<close>

definition signed_inf :: "bool \<Rightarrow> real \<Rightarrow> float64" where
  "signed_inf positive a =
     (if a = 0 then NaN else if (0 < a) = positive then PosInf else NegInf)"

fun f_mul :: "float64 \<Rightarrow> float64 \<Rightarrow> float64" where
  "f_mul NaN y = NaN"
| "f_mul x NaN = NaN"
| "f_mul (Finite a) (Finite b) = Finite (a * b)"
| "f_mul (Finite a) PosInf = signed_inf True a"
| "f_mul (Finite a) NegInf = signed_inf False a"
| "f_mul PosInf (Finite b) = signed_inf True b"
| "f_mul NegInf (Finite b) = signed_inf False b"
| "f_mul PosInf PosInf = PosInf"
| "f_mul NegInf NegInf = PosInf"
| "f_mul PosInf NegInf = NegInf"
| "f_mul NegInf PosInf = NegInf"

fun f_div :: "float64 \<Rightarrow> float64 \<Rightarrow> float64" where
  "f_div NaN y = NaN"
| "f_div x NaN = NaN"
| "f_div (Finite a) (Finite b) = (if b = 0 then signed_inf True a else Finite (a / b))"
| "f_div (Finite a) y = Finite 0"
| "f_div PosInf (Finite b) = (if 0 \<le> b then PosInf else NegInf)"
| "f_div NegInf (Finite b) = (if 0 \<le> b then NegInf else PosInf)"
| "f_div x y = NaN"

fun f_less :: "float64 \<Rightarrow> float64 \<Rightarrow> bool" where
  "f_less NaN y = False"
| "f_less x NaN = False"
| "f_less (Finite a) (Finite b) = (a < b)"
| "f_less x NegInf = False"
| "f_less PosInf y = False"
| "f_less NegInf y = True"
| "f_less (Finite a) PosInf = True"

fun isnan :: "float64 \<Rightarrow> bool" where
  "isnan NaN = True"
| "isnan x = False"

fun isfinite :: "float64 \<Rightarrow> bool" where
  "isfinite (Finite a) = True"
| "isfinite x = False"

text \<open>
  What a division by zero does depends on how the function is run: Python floats and
  numba's default error model raise \<open>ZeroDivisionError\<close>, numpy scalars follow IEEE 754.
  The model takes the error model as a parameter.
\<close>

datatype error_model = Python_error_model | Numpy_error_model

definition f_div_e :: "error_model \<Rightarrow> float64 \<Rightarrow> float64 \<Rightarrow> error + float64" where
  "f_div_e em x y =
     (if em = Python_error_model \<and> y = Finite 0 then Inl ZeroDivisionError
      else Inr (f_div x y))"

text \<open>The fields of \<open>Crop\<close> and of the condition that \<open>biomass_accumulation\<close> uses.\<close>

record BiomassCrop =
  bc_CropType :: int
  bc_Determinant :: int
  bc_HIstartCD :: float64
  bc_YldFormCD :: float64
  bc_WP :: float64
  bc_WPy :: float64
  bc_fCO2 :: float64

record BiomassCond =
  bi_DAP :: int
  bi_DelayedCDs :: int
  bi_HIref :: float64
  bi_PctLagPhase :: float64
  bi_B :: float64
  bi_B_NS :: float64

definition biomass_accumulation ::
  "error_model \<Rightarrow> BiomassCrop \<Rightarrow> BiomassCond \<Rightarrow> float64 \<Rightarrow> float64 \<Rightarrow> float64 \<Rightarrow> bool
     \<Rightarrow> error + BiomassCond" where
  "biomass_accumulation em Crop InitCond Tr TrPot Et0 GrowingSeason =
     (let NewCond = InitCond in
      if GrowingSeason then
        (let HIt = f_sub (f_sub (Finite (of_int (bi_DAP NewCond - bi_DelayedCDs NewCond)))
                            (bc_HIstartCD Crop)) (Finite 1)
         in
         ebind (if (bc_CropType Crop = 2 \<or> bc_CropType Crop = 3)
                    \<and> f_less (Finite 0) (bi_HIref NewCond) then
                  ebind (if bc_Determinant Crop = 1 then
                           Inr (f_div (bi_PctLagPhase NewCond) (Finite 100))
                         else if f_less HIt (f_div (bc_YldFormCD Crop) (Finite 3)) then
                           f_div_e em HIt (f_div (bc_YldFormCD Crop) (Finite 3))
                         else Inr (Finite 1)) (\<lambda>fswitch.
                  Inr (f_mul (bc_WP Crop)
                         (f_sub (Finite 1)
                            (f_mul (f_sub (Finite 1) (f_div (bc_WPy Crop) (Finite 100)))
                               fswitch))))
                else Inr (bc_WP Crop)) (\<lambda>WPadj.
         let WPadj = f_mul WPadj (bc_fCO2 Crop) in
         ebind (f_div_e em TrPot Et0) (\<lambda>q_NS.
         let dB_NS = f_mul WPadj q_NS in
         ebind (f_div_e em Tr Et0) (\<lambda>q.
         let dB = f_mul WPadj q;
             dB = (if isnan dB then Finite 0 else dB)
         in Inr (NewCond\<lparr> bi_B := f_add (bi_B NewCond) dB,
                           bi_B_NS := f_add (bi_B_NS NewCond) dB_NS \<rparr>)))))
      else Inr (NewCond\<lparr> bi_B := Finite 0, bi_B_NS := Finite 0 \<rparr>))"

section \<open>Harvest index\<close>

record KstClass =
  Kst_PolH :: real
  Kst_PolC :: real

text \<open>
  \<open>temperature_stress\<close> starts from a fresh object \<open>KstClass()\<close> and assigns \<open>PolH\<close> and
  \<open>PolC\<close> only when the crop's switches are 0 or 1. The constructor is in
  \<^verbatim>\<open>classes.py\<close>, which is not among the sources, so the fresh object is the parameter
  \<open>Kst_init\<close>.
\<close>

definition logistic_pollination :: "real \<Rightarrow> real \<Rightarrow> error + real" where
  "logistic_pollination fshape_b Trel =
     (let KsPol_up = 1; KsPol_lo = 0.001
      in div_e (KsPol_up * KsPol_lo)
           (KsPol_lo + (KsPol_up - KsPol_lo) * exp (- fshape_b * (1 - Trel))))"

definition temperature_stress ::
  "KstClass \<Rightarrow> CropClass \<Rightarrow> real \<Rightarrow> real \<Rightarrow> error + KstClass" where
  "temperature_stress Kst_init Crop Tmax Tmin =
     (let Kst = Kst_init in
      ebind (if cr_PolHeatStress Crop = 0 then Inr (Kst\<lparr> Kst_PolH := 1 \<rparr>)
             else if cr_PolHeatStress Crop = 1 then
               (if Tmax \<le> cr_Tmax_lo Crop then Inr (Kst\<lparr> Kst_PolH := 1 \<rparr>)
                else if cr_Tmax_up Crop \<le> Tmax then Inr (Kst\<lparr> Kst_PolH := 0 \<rparr>)
                else
                  ebind (div_e (Tmax - cr_Tmax_lo Crop) (cr_Tmax_up Crop - cr_Tmax_lo Crop))
                    (\<lambda>Trel.
                  ebind (logistic_pollination (cr_fshape_b Crop) Trel) (\<lambda>k.
                    Inr (Kst\<lparr> Kst_PolH := k \<rparr>))))
             else Inr Kst) (\<lambda>Kst.
      if cr_PolColdStress Crop = 0 then Inr (Kst\<lparr> Kst_PolC := 1 \<rparr>)
      else if cr_PolColdStress Crop = 1 then
        (if cr_Tmin_up Crop \<le> Tmin then Inr (Kst\<lparr> Kst_PolC := 1 \<rparr>)
         else if Tmin \<le> cr_Tmin_lo Crop then Inr (Kst\<lparr> Kst_PolC := 0 \<rparr>)
         else
           ebind (div_e (cr_Tmin_up Crop - Tmin) (cr_Tmin_up Crop - cr_Tmin_lo Crop))
             (\<lambda>Trel.
           ebind (logistic_pollination (cr_fshape_b Crop) Trel) (\<lambda>k.
             Inr (Kst\<lparr> Kst_PolC := k \<rparr>))))
      else Inr Kst))"

definition HIadj_pre_anthesis :: "InitCondClass \<Rightarrow> real \<Rightarrow> error + InitCondClass" where
  "HIadj_pre_anthesis InitCond Crop_dHI_pre =
     (let NewCond = InitCond in
      ebind (if 0 < Crop_dHI_pre then
               ebind (div_e (ic_B InitCond) (ic_B_NS InitCond)) (\<lambda>Br.
               ebind (ln_e Crop_dHI_pre) (\<lambda>l.
               let Br_range = l / 5.62;
                   Br_upp = 1;
                   Br_low = 1 - Br_range;
                   Br_top = Br_upp - (Br_range / 3)
               in
               ebind (div_e (Br - Br_low) (Br_top - Br_low)) (\<lambda>ratio_low.
               ebind (div_e (Br - Br_top) (Br_upp - Br_top)) (\<lambda>ratio_upp.
                 Inr (if Br_low \<le> Br \<and> Br < Br_top then
                        1 + (((1 + sin ((1.5 - ratio_low) * pi)) / 2) * (Crop_dHI_pre / 100))
                      else if Br_top < Br \<and> Br \<le> Br_upp then
                        1 + (((1 + sin ((0.5 + ratio_upp) * pi)) / 2) * (Crop_dHI_pre / 100))
                      else 1)))))
             else Inr 1) (\<lambda>Fpre.
      let NewCond = NewCond\<lparr> ic_Fpre := Fpre \<rparr>
      in Inr (if ic_CC NewCond \<le> 0.01 then NewCond\<lparr> ic_Fpre := 0 \<rparr> else NewCond)))"

text \<open>
  Fractional flowering at time \<open>t\<close> (the Python computes it twice, for the previous and
  for the current day, as \<open>F1\<close> and \<open>F2\<close>).
\<close>

definition fractional_flowering :: "real \<Rightarrow> real \<Rightarrow> error + real" where
  "fractional_flowering t Crop_FloweringCD =
     ebind (if t = 0 then Inr 0
            else
              ebind (div_e t Crop_FloweringCD) (\<lambda>q.
              let tPct = 100 * q;
                  tPct = (if 100 < tPct then 100 else tPct)
              in ebind (ln_e tPct) (\<lambda>l.
                   Inr (0.00558 * exp (0.63 * l) - (0.000969 * tPct) - 0.00383)))) (\<lambda>F.
     Inr (if F < 0 then 0 else F))"

text \<open>
  For \<open>HIt < 0\<close> no branch assigns \<open>FracFlow\<close> (\<open>None\<close> below); reading it then fails.
\<close>

definition HIadj_pollination ::
  "real \<Rightarrow> real \<Rightarrow> real \<Rightarrow> real \<Rightarrow> real \<Rightarrow> KswClass \<Rightarrow> KstClass \<Rightarrow> real \<Rightarrow> error + real" where
  "HIadj_pollination InitCond_CC InitCond_Fpol Crop_FloweringCD Crop_CCmin Crop_exc Ksw Kst HIt =
     ebind (if HIt = 0 then Inr (Some 0)
            else if 0 < HIt then
              ebind (fractional_flowering (HIt - 1) Crop_FloweringCD) (\<lambda>F1.
              ebind (fractional_flowering HIt Crop_FloweringCD) (\<lambda>F2.
                if \<bar>F1 - F2\<bar> < 0.0000001 then Inr (Some 0)
                else ebind (div_e (100 * ((F1 + F2) / 2)) Crop_FloweringCD) (\<lambda>F.
                       Inr (Some F))))
            else Inr None) (\<lambda>FracFlow.
     ebind (if InitCond_CC < Crop_CCmin then Inr 0
            else
              (case FracFlow of
                 None \<Rightarrow> Inl UnboundLocalError
               | Some FracFlow \<Rightarrow>
                   (let Ks = min (min (Ksw_Pol Ksw) (Kst_PolC Kst)) (Kst_PolH Kst)
                    in Inr (Ks * FracFlow * (1 + (Crop_exc / 100)))))) (\<lambda>dFpol.
     let NewCond_Fpol = InitCond_Fpol + dFpol
     in Inr (if 1 < NewCond_Fpol then 1 else NewCond_Fpol)))"

definition HIadj_post_anthesis ::
  "InitCondClass \<Rightarrow> CropClass \<Rightarrow> KswClass \<Rightarrow> error + InitCondClass" where
  "HIadj_post_anthesis InitCond Crop Ksw =
     (let NewCond = InitCond;
          InitCond_DelayedCDs = ic_DelayedCDs InitCond;
          InitCond_sCor1 = ic_sCor1 InitCond;
          InitCond_sCor2 = ic_sCor2 InitCond;
          tmax1 = cr_CanopyDevEndCD Crop - cr_HIstartCD Crop;
          DAP = real_of_int (ic_DAP NewCond - InitCond_DelayedCDs)
      in
      ebind (if DAP \<le> cr_CanopyDevEndCD Crop + 1 \<and> 0 < tmax1 \<and> 0.99 < ic_Fpre NewCond
                \<and> 0.001 < ic_CC NewCond \<and> 0 < cr_a_HI Crop then
               ebind (div_e (1 - Ksw_Exp Ksw) (cr_a_HI Crop)) (\<lambda>q.
               let dCor = 1 + q in
               ebind (div_e dCor tmax1) (\<lambda>r.
               let NewCond = NewCond\<lparr> ic_sCor1 := InitCond_sCor1 + r \<rparr>;
                   DayCor = DAP - 1 - cr_HIstartCD Crop
               in ebind (div_e tmax1 DayCor) (\<lambda>u.
                    Inr (NewCond\<lparr> ic_fpost_upp := u * ic_sCor1 NewCond \<rparr>))))
             else Inr NewCond) (\<lambda>NewCond.
      let tmax2 = cr_YldFormCD Crop in
      ebind (if DAP \<le> cr_HIendCD Crop + 1 \<and> 0 < tmax2 \<and> 0.99 < ic_Fpre NewCond
                \<and> 0.001 < ic_CC NewCond \<and> 0 < cr_b_HI Crop then
               ebind (if 0 \<le> Ksw_Sto Ksw then Inr (Ksw_Sto Ksw powr 0.1)
                      else Inl FloatingPointError) (\<lambda>pw.
               ebind (div_e (1 - Ksw_Sto Ksw) (cr_b_HI Crop)) (\<lambda>q.
               let dCor = pw * (1 - q) in
               ebind (div_e dCor tmax2) (\<lambda>r.
               let NewCond = NewCond\<lparr> ic_sCor2 := InitCond_sCor2 + r \<rparr>;
                   DayCor = DAP - 1 - cr_HIstartCD Crop
               in ebind (div_e tmax2 DayCor) (\<lambda>u.
                    Inr (NewCond\<lparr> ic_fpost_dwn := u * ic_sCor2 NewCond \<rparr>)))))
             else Inr NewCond) (\<lambda>NewCond.
      ebind (if tmax1 = 0 \<and> tmax2 = 0 then Inr 1
             else if tmax2 = 0 then Inr (ic_fpost_upp NewCond)
             else if tmax1 = 0 then Inr (ic_fpost_dwn NewCond)
             else if tmax1 \<le> tmax2 then
               ebind (div_e ((tmax1 * ic_fpost_upp NewCond) + (tmax2 - tmax1)) tmax2) (\<lambda>q.
                 Inr (ic_fpost_dwn NewCond * q))
             else
               ebind (div_e ((tmax2 * ic_fpost_dwn NewCond) + (tmax1 - tmax2)) tmax1) (\<lambda>q.
                 Inr (ic_fpost_upp NewCond * q))) (\<lambda>Fpost.
      Inr (NewCond\<lparr> ic_Fpost := Fpost \<rparr>)))))"

text \<open>The time for harvest index build-up, \<open>HIt\<close>.\<close>

definition harvest_index_time :: "CropClass \<Rightarrow> InitCondClass \<Rightarrow> real" where
  "harvest_index_time Crop NewCond =
     real_of_int (ic_DAP NewCond - ic_DelayedCDs NewCond) - cr_HIstartCD Crop - 1"

text \<open>
  The branch \<open>(NewCond.YieldForm == True) & (HIt >= 0)\<close> of \<open>harvest_index\<close>; it yields
  the condition, \<open>HIi\<close> and \<open>HIadj\<close>. For a crop type outside \<open>1..3\<close> no branch assigns
  \<open>HIadj\<close>, and storing it fails.
\<close>

definition harvest_index_yield_formation ::
  "CropClass \<Rightarrow> InitCondClass \<Rightarrow> bool \<Rightarrow> KswClass \<Rightarrow> KstClass \<Rightarrow> real \<Rightarrow> real
     \<Rightarrow> error + InitCondClass \<times> real \<times> real" where
  "harvest_index_yield_formation Crop NewCond InitCond_PreAdj Ksw Kst HIi HIt =
     (if cr_CropType Crop = 2 \<or> cr_CropType Crop = 3 then
        ebind (if \<not> InitCond_PreAdj then
                 HIadj_pre_anthesis (NewCond\<lparr> ic_PreAdj := True \<rparr>) (cr_dHI_pre Crop)
               else Inr NewCond) (\<lambda>NewCond.
        ebind (if cr_CropType Crop = 3 then
                 ebind (if 0 < HIt \<and> HIt \<le> cr_FloweringCD Crop then
                          ebind (HIadj_pollination (ic_CC NewCond) (ic_Fpol NewCond)
                                   (cr_FloweringCD Crop) (cr_CCmin Crop) (cr_exc Crop)
                                   Ksw Kst HIt) (\<lambda>Fpol.
                            Inr (NewCond\<lparr> ic_Fpol := Fpol \<rparr>))
                        else Inr NewCond) (\<lambda>NewCond.
                 Inr (NewCond, ic_Fpol NewCond * cr_HI0 Crop))
               else Inr (NewCond, cr_HI0 Crop)) (\<lambda>(NewCond, HImax).
        ebind (if 0 < HIt then HIadj_post_anthesis NewCond Crop Ksw
               else Inr NewCond) (\<lambda>NewCond.
        let HImult = ic_Fpre NewCond * ic_Fpost NewCond;
            HImult = (if 1 + (cr_dHI0 Crop / 100) < HImult then 1 + (cr_dHI0 Crop / 100)
                      else HImult);
            HIadj = (if HIi \<le> HImax then HImult * HIi else HImult * HImax)
        in Inr (NewCond, HIi, HIadj))))
      else if cr_CropType Crop = 1 then Inr (NewCond, HIi, HIi)
      else Inl UnboundLocalError)"

definition harvest_index ::
  "KstClass \<Rightarrow> SoilProfileClass \<Rightarrow> real \<Rightarrow> CropClass \<Rightarrow> InitCondClass \<Rightarrow> real \<Rightarrow> real \<Rightarrow> real
     \<Rightarrow> bool \<Rightarrow> error + InitCondClass" where
  "harvest_index Kst_init Soil_Profile Soil_zTop Crop InitCond Et0 Tmax Tmin GrowingSeason =
     (let NewCond = InitCond;
          InitCond_HI = ic_HI InitCond;
          InitCond_HIadj = ic_HIadj InitCond;
          InitCond_PreAdj = ic_PreAdj InitCond
      in
      if GrowingSeason then
        ebind (root_zone_water Soil_Profile (ic_Zroot NewCond) (ic_th NewCond) Soil_zTop
                 (cr_Zmin Crop) (cr_Aer Crop)) (\<lambda>(WrAct, Dr_obj, TAW_obj, thRZ).
        ebind (div_e (Dr_Rz Dr_obj) (TAW_Rz TAW_obj)) (\<lambda>rel_Rz.
        ebind (div_e (Dr_Zt Dr_obj) (TAW_Zt TAW_obj)) (\<lambda>rel_Zt.
        let (Dr, TAW) = (if rel_Rz \<le> rel_Zt then (Dr_Rz Dr_obj, TAW_Rz TAW_obj)
                         else (Dr_Zt Dr_obj, TAW_Zt TAW_obj));
            beta = True
        in
        ebind (water_stress Crop NewCond Dr TAW Et0 beta) (\<lambda>Ksw.
        ebind (temperature_stress Kst_init Crop Tmax Tmin) (\<lambda>Kst.
        let HIi = ic_HIref NewCond;
            HIt = harvest_index_time Crop NewCond
        in
        ebind (if ic_YieldForm NewCond \<and> 0 \<le> HIt then
                 harvest_index_yield_formation Crop NewCond InitCond_PreAdj Ksw Kst HIi HIt
               else Inr (NewCond, InitCond_HI, InitCond_HIadj)) (\<lambda>(NewCond, HIi, HIadj).
        Inr (NewCond\<lparr> ic_HI := HIi, ic_HIadj := HIadj \<rparr>)))))))
      else Inr (NewCond\<lparr> ic_HI := 0, ic_HIadj := 0 \<rparr>))"

section \<open>Example inputs\<close>

text \<open>
  A three-compartment profile, a maize-like crop, a condition on day 70 after planting and
  a fixed-interval irrigation policy, used to run the functions on concrete inputs.
\<close>

definition example_prof :: SoilProfileClass where
  "example_prof =
     \<lparr> prof_dz = [0.1, 0.1, 0.1], prof_dzsum = [0.1, 0.2, 0.3],
       prof_th_s = [0.5, 0.5, 0.5], prof_th_fc = [0.3, 0.3, 0.3],
       prof_th_wp = [0.1, 0.1, 0.1], prof_th_dry = [0.05, 0.05, 0.05] \<rparr>"

definition example_Crop :: CropClass where
  "example_Crop =
     \<lparr> cr_Zmin = 0.3, cr_Aer = 5,
       cr_p_up = [0.14, 0.69, 0.69, 0.8], cr_p_lo = [0.72, 1, 1, 1],
       cr_fshape_w = [2.9, 6, 2.7, 1], cr_ETadj = 0, cr_beta = 12,
       cr_CropType = 3, cr_dHI_pre = 0, cr_FloweringCD = 13, cr_CCmin = 0.05,
       cr_exc = 50, cr_HI0 = 0.48, cr_dHI0 = 15, cr_HIstartCD = 66,
       cr_CanopyDevEndCD = 72, cr_HIendCD = 108, cr_YldFormCD = 61,
       cr_a_HI = 7, cr_b_HI = 3, cr_PolHeatStress = 1, cr_PolColdStress = 1,
       cr_Tmax_lo = 40, cr_Tmax_up = 45, cr_Tmin_lo = 5, cr_Tmin_up = 10,
       cr_fshape_b = 13.8135 \<rparr>"

definition example_InitCond :: InitCondClass where
  "example_InitCond =
     \<lparr> ic_Zroot = 0.25, ic_th = [0.2, 0.2, 0.2], ic_Tpot = 4, ic_Epot = 1,
       ic_Depletion = 0, ic_TAW = 0, ic_DAP = 70, ic_DelayedCDs = 0,
       ic_GrowthStage = 3, ic_TimeStepCounter = 69, ic_IrrCum = 280,
       ic_tEarlySen = 0, ic_CC = 0.9, ic_CC_NS = 0.92, ic_CCadj = 0.95,
       ic_CCadj_NS = 0.97, ic_CCxAct = 0.9, ic_CCxAct_NS = 0.92, ic_CCxW = 0.9,
       ic_CCxW_NS = 0.92, ic_B = 900, ic_B_NS = 1000,
       ic_YieldForm = True, ic_PreAdj = True, ic_HIref = 0.05, ic_HI = 0.04,
       ic_HIadj = 0.04, ic_Fpre = 1, ic_Fpol = 0.2, ic_Fpost = 1,
       ic_fpost_upp = 1, ic_fpost_dwn = 1, ic_sCor1 = 0, ic_sCor2 = 0 \<rparr>"


definition example_BiomassCrop :: BiomassCrop where
  "example_BiomassCrop =
     \<lparr> bc_CropType = 3, bc_Determinant = 1, bc_HIstartCD = Finite 66,
       bc_YldFormCD = Finite 61, bc_WP = Finite 33.7, bc_WPy = Finite 100,
       bc_fCO2 = Finite 1 \<rparr>"

definition example_BiomassCond :: BiomassCond where
  "example_BiomassCond =
     \<lparr> bi_DAP = 70, bi_DelayedCDs = 0, bi_HIref = Finite 0.05, bi_PctLagPhase = Finite 100,
       bi_B = Finite 900, bi_B_NS = Finite 1000 \<rparr>"

definition example_Kst :: KstClass where
  "example_Kst = \<lparr> Kst_PolH = 1, Kst_PolC = 1 \<rparr>"

text \<open>Day 81 after planting, after flowering, with the soil at field capacity.\<close>

definition example_InitCond_HI :: InitCondClass where
  "example_InitCond_HI = example_InitCond\<lparr> ic_th := [0.3, 0.3, 0.3], ic_DAP := 81 \<rparr>"

section \<open>Properties\<close>

lemma ebind_InrE:
  assumes "ebind m f = Inr y"
  obtains x where "m = Inr x" and "f x = Inr y"
  using assms by (cases m) (simp_all add: ebind_def)

lemma ebind_Inl: "ebind (Inl e) f = Inl e"
  by (simp add: ebind_def)

lemma ebind_Inr: "ebind (Inr x) f = f x"
  by (simp add: ebind_def)


subsection \<open>Growing degree days\<close>

text \<open>
  Claim C10. For every GDD method in \<open>{1, 2, 3}\<close> and all temperatures with
  \<open>Tbase \<le> Tupp\<close>, \<open>growing_degree_day\<close> returns a value \<open>GDD\<close> with
  \<open>0 \<le> GDD \<le> Tupp - Tbase\<close>, whatever the order of \<open>Tmax\<close> and \<open>Tmin\<close>.
\<close>

theorem growing_degree_day_bounds:
  assumes "GDDmethod \<in> {1, 2, 3}" and "Tbase \<le> Tupp"
  shows "\<exists>GDD. growing_degree_day GDDmethod Tupp Tbase Tmax Tmin = Inr GDD
           \<and> 0 \<le> GDD \<and> GDD \<le> Tupp - Tbase"
proof -
  from assms(1) consider "GDDmethod = 1" | "GDDmethod = 2" | "GDDmethod = 3"
    by auto
  then show ?thesis
  proof cases
    case 1
    with assms(2) show ?thesis
      by (simp add: growing_degree_day_def Let_def min_def max_def)
  next
    case 2
    with assms(2) show ?thesis
      by (simp add: growing_degree_day_def Let_def min_def max_def)
  next
    case 3
    with assms(2) show ?thesis
      by (simp add: growing_degree_day_def Let_def min_def max_def)
  qed
qed

theorem growing_degree_day_bounds_witness:
  "(3::int) \<in> {1, 2, 3} \<and> (10::real) \<le> 30
   \<and> (\<exists>GDD. growing_degree_day 3 30 10 4 36 = Inr GDD \<and> 0 \<le> GDD \<and> GDD \<le> 30 - 10)"
  using growing_degree_day_bounds [of 3 10 30 4 36] by simp

subsection \<open>Root-zone water accounting\<close>

text \<open>On a well-formed profile that reaches the root depth the call returns.\<close>

lemma cover_factor_returns:
  assumes "ii < length (prof_dzsum prof)" and "ii < length (prof_dz prof)"
    and "prof_dz prof ! ii \<noteq> 0"
  shows "\<exists>f. cover_factor prof depth ii = Inr f"
  using assms by (simp add: cover_factor_def nth_e_def div_e_def ebind_Inr)

lemma root_zone_loop_returns:
  assumes "\<forall>ii \<in> set idx. ii < n"
    and "length (prof_dzsum prof) = n" and "length (prof_dz prof) = n"
    and "length (prof_th_s prof) = n" and "length (prof_th_fc prof) = n"
    and "length (prof_th_wp prof) = n" and "length (prof_th_dry prof) = n"
    and "n \<le> length InitCond_th" and "\<forall>d \<in> set (prof_dz prof). d \<noteq> 0"
  shows "\<exists>w'. root_zone_loop prof InitCond_th Crop_Aer rootdepth idx w = Inr w'"
  using assms(1)
proof (induction idx arbitrary: w)
  case Nil
  show ?case by simp
next
  case (Cons ii rest)
  then have ii: "ii < n" by simp
  with assms have nz: "prof_dz prof ! ii \<noteq> 0" by simp
  from cover_factor_returns [of ii prof rootdepth] ii nz assms(2,3)
  obtain f where "cover_factor prof rootdepth ii = Inr f" by auto
  with ii assms(2-8) obtain w1 where
    "root_zone_step prof InitCond_th Crop_Aer rootdepth ii w = Inr w1"
    by (simp add: root_zone_step_def nth_e_def ebind_Inr)
  with Cons show ?case
    by (simp add: ebind_Inr)
qed

lemma top_soil_loop_returns:
  assumes "\<forall>ii \<in> set idx. ii < n"
    and "length (prof_dzsum prof) = n" and "length (prof_dz prof) = n"
    and "length (prof_th_fc prof) = n" and "length (prof_th_wp prof) = n"
    and "n \<le> length InitCond_th" and "\<forall>d \<in> set (prof_dz prof). d \<noteq> 0"
  shows "\<exists>w'. top_soil_loop prof InitCond_th ztopdepth idx w = Inr w'"
  using assms(1)
proof (induction idx arbitrary: w)
  case Nil
  show ?case by (simp del: split_paired_Ex)
next
  case (Cons ii rest)
  then have ii: "ii < n" by simp
  with assms have nz: "prof_dz prof ! ii \<noteq> 0" by simp
  from cover_factor_returns [of ii prof ztopdepth] ii nz assms(2,3)
  obtain f where "cover_factor prof ztopdepth ii = Inr f" by auto
  with ii assms(2-6) obtain w1 where
    "top_soil_step prof InitCond_th ztopdepth ii w = Inr w1"
    by (cases w rule: prod_cases3) (simp add: top_soil_step_def nth_e_def ebind_Inr)
  with Cons show ?case
    by (simp add: ebind_Inr)
qed

lemma first_index_ge_less:
  assumes "first_index_ge xs v = Inr k"
  shows "k < length xs"
  using assms
  by (induction xs arbitrary: k) (auto simp: first_index_ge_def split: if_splits)

lemma root_zone_water_returns:
  assumes cover: "list_ex (\<lambda>z. round2 (max InitCond_Zroot Crop_Zmin) \<le> z) (prof_dzsum prof)"
    and len: "length (prof_dzsum prof) = n" "length (prof_dz prof) = n"
      "length (prof_th_s prof) = n" "length (prof_th_fc prof) = n"
      "length (prof_th_wp prof) = n" "length (prof_th_dry prof) = n"
      "n \<le> length InitCond_th"
    and dz: "\<forall>d \<in> set (prof_dz prof). d \<noteq> 0"
    and depth: "round2 (max InitCond_Zroot Crop_Zmin) \<noteq> 0"
    and top: "Soil_zTop < round2 (max InitCond_Zroot Crop_Zmin) \<longrightarrow>
                list_ex (\<lambda>z. z \<le> round2 Soil_zTop) (prof_dzsum prof)"
  shows "\<exists>r. root_zone_water prof InitCond_Zroot InitCond_th Soil_zTop Crop_Zmin Crop_Aer = Inr r"
proof -
  let ?rd = "round2 (max InitCond_Zroot Crop_Zmin)"
  let ?k = "length (takeWhile (\<lambda>x. \<not> ?rd \<le> x) (prof_dzsum prof))"
  from cover have "first_index_ge (prof_dzsum prof) ?rd = Inr ?k"
    by (simp add: first_index_ge_def)
  then have "?k < length (prof_dzsum prof)"
    by (rule first_index_ge_less)
  with len(1) have "\<forall>ii \<in> set [0 ..< ?k + 1]. ii < n" by simp
  from root_zone_loop_returns [OF this len dz] obtain w where
    "root_zone_loop prof InitCond_th Crop_Aer ?rd [0 ..< ?k + 1]
       \<lparr> WrAct = 0, WrS = 0, WrFC = 0, WrWP = 0, WrDry = 0, WrAer = 0 \<rparr> = Inr w"
    by blast
  with cover have
    w: "root_zone_counters prof InitCond_Zroot InitCond_th Crop_Zmin Crop_Aer = Inr w"
    unfolding root_zone_counters_def Let_def first_index_ge_def
    by (simp add: ebind_Inr)
  have "\<exists>t. (if Soil_zTop < ?rd then top_soil_water prof InitCond_th Soil_zTop
              else Inr (a, b)) = Inr t" for a b :: real
  proof (cases "Soil_zTop < ?rd")
    case False
    then show ?thesis by simp
  next
    case True
    let ?c = "length (filter (\<lambda>z. z \<le> round2 Soil_zTop) (prof_dzsum prof))"
    from True top have pos: "0 < ?c"
      by (auto simp: list_ex_iff filter_empty_conv)
    have "?c \<le> n" using len(1) length_filter_le [of _ "prof_dzsum prof"] by simp
    then have "\<forall>ii \<in> set [0 ..< ?c]. ii < n" by simp
    from top_soil_loop_returns [OF this len(1,2,4,5,7) dz]
    obtain t where "top_soil_loop prof InitCond_th (round2 Soil_zTop) [0 ..< ?c] (0, 0, 0) = Inr t"
      by blast
    with True pos show ?thesis
      by (cases t) (simp add: top_soil_water_def Let_def ebind_Inr)
  qed
  with w depth show ?thesis
    unfolding root_zone_water_def Let_def
    by (auto simp: ebind_Inr div_e_def split: prod.splits)
qed


text \<open>
  Claim C1. Whenever \<open>root_zone_water\<close> returns (which it does only for a profile whose
  cumulative depths reach the rounded root depth; otherwise the compartment search
  raises), the returned actual root-zone water \<open>WrAct\<close> is the loop's sum floored at
  zero, hence non-negative; the returned root-zone total available water is
  \<open>max (WrFC - WrWP) 0\<close>; and the returned root-zone depletion is
  \<open>min (WrFC - WrAct) TAW\<close>, where \<open>WrFC\<close> and \<open>WrWP\<close> are the field-capacity and
  wilting-point water of the root zone.
\<close>

theorem root_zone_water_guarantees:
  assumes "root_zone_water prof InitCond_Zroot InitCond_th Soil_zTop Crop_Zmin Crop_Aer
             = Inr (WrAct', Dr, TAW, thRZ)"
  shows "\<exists>w. root_zone_counters prof InitCond_Zroot InitCond_th Crop_Zmin Crop_Aer = Inr w
           \<and> list_ex (\<lambda>z. round2 (max InitCond_Zroot Crop_Zmin) \<le> z) (prof_dzsum prof)
           \<and> 0 \<le> WrAct' \<and> WrAct' = max (WrAct w) 0
           \<and> TAW_Rz TAW = max (WrFC w - WrWP w) 0
           \<and> Dr_Rz Dr = min (WrFC w - WrAct') (TAW_Rz TAW)"
proof -
  from assms obtain w where
    w: "root_zone_counters prof InitCond_Zroot InitCond_th Crop_Zmin Crop_Aer = Inr w"
    and r: "WrAct' = max (WrAct w) 0" "TAW_Rz TAW = max (WrFC w - WrWP w) 0"
      "Dr_Rz Dr = min (WrFC w - WrAct') (TAW_Rz TAW)"
    unfolding root_zone_water_def Let_def
    by (elim ebind_InrE) (clarsimp split: prod.splits)
  from w have "list_ex (\<lambda>z. round2 (max InitCond_Zroot Crop_Zmin) \<le> z) (prof_dzsum prof)"
    unfolding root_zone_counters_def Let_def first_index_ge_def
    by (elim ebind_InrE) (simp split: if_splits)
  with w r show ?thesis
    by simp
qed

theorem root_zone_water_guarantees_witness:
  "root_zone_water example_prof 0.25 [0.2, 0.2, 0.2] 0.1 0.3 5
     = Inr (60, \<lparr>Dr_Rz = 30, Dr_Zt = 10\<rparr>, \<lparr>TAW_Rz = 60, TAW_Zt = 20\<rparr>,
            \<lparr>thRZ_Act = 1 / 5, thRZ_S = 1 / 2, thRZ_FC = 3 / 10, thRZ_WP = 1 / 10,
              thRZ_Dry = 1 / 20, thRZ_Aer = 9 / 20\<rparr>)
   \<and> (\<exists>w. root_zone_counters example_prof 0.25 [0.2, 0.2, 0.2] 0.3 5 = Inr w
         \<and> list_ex (\<lambda>z. round2 (max 0.25 0.3) \<le> z) (prof_dzsum example_prof)
         \<and> (0::real) \<le> 60 \<and> 60 = max (WrAct w) 0
         \<and> 60 = max (WrFC w - WrWP w) 0
         \<and> 30 = min (WrFC w - 60) 60)"
proof -
  have run: "root_zone_water example_prof 0.25 [0.2, 0.2, 0.2] 0.1 0.3 5
     = Inr (60, \<lparr>Dr_Rz = 30, Dr_Zt = 10\<rparr>, \<lparr>TAW_Rz = 60, TAW_Zt = 20\<rparr>,
            \<lparr>thRZ_Act = 1 / 5, thRZ_S = 1 / 2, thRZ_FC = 3 / 10, thRZ_WP = 1 / 10,
              thRZ_Dry = 1 / 20, thRZ_Aer = 9 / 20\<rparr>)"
    by code_simp
  from root_zone_water_guarantees [OF run] run show ?thesis
    by simp
qed

subsection \<open>Irrigation\<close>






subsection \<open>Water stress\<close>

lemma relative_depletion_range:
  assumes "0 < TAW" and "relative_depletion Dr TAW pu pl = Inr d"
  shows "0 \<le> d \<and> d \<le> 1 \<and> (Dr / TAW \<le> pu \<longrightarrow> d = 0) \<and> (pl \<le> Dr / TAW \<and> pu < Dr / TAW \<longrightarrow> d = 1)"
proof (cases "Dr \<le> pu * TAW")
  case True
  with assms show ?thesis
    by (auto simp: relative_depletion_def field_simps)
next
  case F: False
  show ?thesis
  proof (cases "Dr < pl * TAW")
    case True
    from F True assms(1) have q: "pu < Dr / TAW" "Dr / TAW < pl"
      by (simp_all add: field_simps)
    with assms F True have d: "d = 1 - (pl - Dr / TAW) / (pl - pu)"
      by (auto simp: relative_depletion_def div_e_def ebind_def split: if_splits)
    from q have "0 \<le> (pl - Dr / TAW) / (pl - pu)" "(pl - Dr / TAW) / (pl - pu) \<le> 1"
      by (simp_all add: field_simps)
    with d q show ?thesis by auto
  next
    case False
    with F assms show ?thesis
      by (auto simp: relative_depletion_def field_simps)
  qed
qed

lemma stress_coefficient_range:
  assumes "stress_coefficient d f = Inr k" and "0 \<le> d" and "d \<le> 1"
  shows "0 \<le> k \<and> k \<le> 1 \<and> (d = 0 \<longrightarrow> k = 1) \<and> (d = 1 \<longrightarrow> k = 0)"
proof -
  from assms(1) have f: "f \<noteq> 0" and k: "k = 1 - (exp (d * f) - 1) / (exp f - 1)"
    by (auto simp: stress_coefficient_def div_e_def ebind_def split: if_splits)
  show ?thesis
  proof (cases "0 < f")
    case True
    then have "0 < exp f - 1" by simp
    moreover from True assms(2,3) have "0 \<le> exp (d * f) - 1" "exp (d * f) - 1 \<le> exp f - 1"
      by (simp_all add: mult_le_cancel_right1)
    ultimately have "0 \<le> (exp (d * f) - 1) / (exp f - 1)" "(exp (d * f) - 1) / (exp f - 1) \<le> 1"
      by (simp_all add: field_simps)
    with k f show ?thesis by auto
  next
    case False
    with f have neg: "f < 0" by simp
    then have "exp f - 1 < 0" by simp
    moreover from neg assms(2,3) have "exp (d * f) - 1 \<le> 0" "exp f - 1 \<le> exp (d * f) - 1"
      by (simp_all add: mult_le_0_iff mult_le_cancel_right1 mult_le_cancel_right2)
    ultimately have "0 \<le> (exp (d * f) - 1) / (exp f - 1)" "(exp (d * f) - 1) / (exp f - 1) \<le> 1"
      by (simp_all add: field_simps zero_le_divide_iff)
    with k f show ?thesis by auto
  qed
qed


lemma water_stress_thresholds_range:
  assumes "water_stress_thresholds Crop InitCond Et0 beta = Inr (p_up, p_lo)" and "i < 4"
  shows "0 \<le> p_up ! i \<and> p_up ! i \<le> 1 \<and> 0 \<le> p_lo ! i \<and> p_lo ! i \<le> 1"
  using assms unfolding water_stress_thresholds_def Let_def Et0_adjust_first3_def
  by (auto elim!: ebind_InrE split: if_splits)

lemma stress_pair:
  assumes t: "water_stress_thresholds Crop InitCond Et0 beta = Inr (p_up, p_lo)" and i: "i < 4"
    and TAW: "0 < TAW"
    and d: "relative_depletion Dr TAW (p_up ! i) (p_lo ! i) = Inr d"
    and K: "0 \<le> K \<and> K \<le> 1 \<and> (d = 0 \<longrightarrow> K = 1) \<and> (d = 1 \<longrightarrow> K = 0)"
  shows "0 \<le> p_up ! i \<and> p_up ! i \<le> 1 \<and> 0 \<le> p_lo ! i \<and> p_lo ! i \<le> 1
         \<and> 0 \<le> K \<and> K \<le> 1
         \<and> (Dr / TAW \<le> p_up ! i \<longrightarrow> K = 1) \<and> (Dr = 0 \<longrightarrow> K = 1)
         \<and> (p_lo ! i \<le> Dr / TAW \<and> p_up ! i < Dr / TAW \<longrightarrow> K = 0)
         \<and> (1 < Dr / TAW \<longrightarrow> K = 0)"
proof -
  note r = water_stress_thresholds_range [OF t i]
  note dd = relative_depletion_range [OF TAW d]
  from TAW have z: "Dr = 0 \<Longrightarrow> Dr / TAW = 0"
    by simp
  from r have big: "1 < Dr / TAW \<Longrightarrow> p_lo ! i \<le> Dr / TAW \<and> p_up ! i < Dr / TAW"
    by linarith
  from r dd K z big show ?thesis
    by metis
qed

text \<open>
  With four thresholds per array, none above 1, and non-zero shape factors the call
  returns.
\<close>

lemma relative_depletion_returns:
  assumes "0 < TAW"
  shows "\<exists>d. relative_depletion Dr TAW pu pl = Inr d"
proof (cases "pu * TAW < Dr \<and> Dr < pl * TAW")
  case True
  with assms have "pl - pu \<noteq> 0"
    by (auto simp: field_simps)
  with True assms show ?thesis
    by (simp add: relative_depletion_def div_e_def ebind_Inr)
next
  case False
  then show ?thesis
    by (auto simp: relative_depletion_def)
qed

lemma Et0_adjust_returns:
  assumes "p \<le> 1"
  shows "\<exists>a. Et0_adjust Et0 p = Inr a"
  using assms by (simp add: Et0_adjust_def log10_e_def ebind_Inr)


lemma water_stress_thresholds_returns:
  assumes "length (cr_p_up Crop) = 4" and "length (cr_p_lo Crop) = 4"
    and "\<forall>p \<in> set (cr_p_up Crop) \<union> set (cr_p_lo Crop). p \<le> 1"
  shows "\<exists>t. water_stress_thresholds Crop InitCond Et0 beta = Inr t"
proof -
  have a: "\<exists>ps'. Et0_adjust_first3 Et0 ps = Inr ps'"
    if len: "length ps = 4" and le: "\<forall>p \<in> set ps. p \<le> 1" for ps
  proof -
    have e: "\<exists>x. Et0_adjust Et0 (ps ! i) = Inr x" if "i < 4" for i
    proof (rule Et0_adjust_returns)
      from that len have "ps ! i \<in> set ps" by simp
      with le show "ps ! i \<le> 1" by blast
    qed
    from e [of 0] obtain x where x: "Et0_adjust Et0 (ps ! 0) = Inr x" by auto
    from e [of 1] obtain y where y: "Et0_adjust Et0 (ps ! 1) = Inr y" by auto
    from e [of 2] obtain z where z: "Et0_adjust Et0 (ps ! 2) = Inr z" by auto
    from x y z show ?thesis
      by (simp add: Et0_adjust_first3_def ebind_Inr)
  qed
  from assms(3) have "\<forall>p \<in> set (cr_p_up Crop). p \<le> 1" "\<forall>p \<in> set (cr_p_lo Crop). p \<le> 1"
    by blast+
  with a [OF assms(1)] a [OF assms(2)] obtain pu pl where
    pu: "Et0_adjust_first3 Et0 (cr_p_up Crop) = Inr pu"
    and pl: "Et0_adjust_first3 Et0 (cr_p_lo Crop) = Inr pl"
    by blast
  from assms(1,2) pu pl show ?thesis
    by (simp add: water_stress_thresholds_def Let_def ebind_Inr)
qed


lemma water_stress_returns:
  assumes "0 < TAW"
    and "length (cr_p_up Crop) = 4" and "length (cr_p_lo Crop) = 4"
    and "\<forall>p \<in> set (cr_p_up Crop) \<union> set (cr_p_lo Crop). p \<le> 1"
    and "3 \<le> length (cr_fshape_w Crop)"
    and "\<forall>i < 3. cr_fshape_w Crop ! i \<noteq> 0"
  shows "\<exists>Ksw. water_stress Crop InitCond Dr TAW Et0 beta = Inr Ksw"
proof -
  from water_stress_thresholds_returns [OF assms(2-4)] obtain t where
    "water_stress_thresholds Crop InitCond Et0 beta = Inr t"
    by blast
  then obtain pu pl where
    t: "water_stress_thresholds Crop InitCond Et0 beta = Inr (pu, pl)"
    by (cases t) simp
  obtain d0 where d0: "relative_depletion Dr TAW (pu ! 0) (pl ! 0) = Inr d0"
    using relative_depletion_returns [OF assms(1)] by blast
  obtain d1 where d1: "relative_depletion Dr TAW (pu ! 1) (pl ! 1) = Inr d1"
    using relative_depletion_returns [OF assms(1)] by blast
  obtain d2 where d2: "relative_depletion Dr TAW (pu ! 2) (pl ! 2) = Inr d2"
    using relative_depletion_returns [OF assms(1)] by blast
  obtain d3 where d3: "relative_depletion Dr TAW (pu ! 3) (pl ! 3) = Inr d3"
    using relative_depletion_returns [OF assms(1)] by blast
  note d = d0 d1 d2 d3
  from assms(6) have "cr_fshape_w Crop ! 0 \<noteq> 0" "cr_fshape_w Crop ! 1 \<noteq> 0"
    "cr_fshape_w Crop ! 2 \<noteq> 0"
    by simp_all
  moreover from assms(5) have "0 < length (cr_fshape_w Crop)"
    "Suc 0 < length (cr_fshape_w Crop)" "2 < length (cr_fshape_w Crop)"
    by linarith+
  ultimately show ?thesis
    using t d
    by (simp add: water_stress_def ebind_Inr nth_e_def stress_coefficient_def div_e_def)
qed


text \<open>
  Claim C2, amended. Let \<open>(p_up, p_lo)\<close> be the thresholds that \<open>water_stress\<close> works
  with (after the adjustment for Et0, the tightening of the senescence threshold and the
  clamp to \<open>[0, 1]\<close>). For every call with \<open>TAW > 0\<close> that returns, each returned
  coefficient (Exp, Sto, Sen, Pol, StoLin) lies in \<open>[0, 1]\<close>; it is 1 when \<open>Dr / TAW\<close> is
  at or below the upper threshold (in particular when the depletion is 0); and it is 0
  when \<open>Dr / TAW\<close> is at or above the lower threshold and strictly above the upper one
  (in particular when the relative depletion exceeds 1).
\<close>

theorem water_stress_bounds:
  assumes "0 < TAW" and "water_stress Crop InitCond Dr TAW Et0 beta = Inr Ksw"
  shows "\<exists>p_up p_lo. water_stress_thresholds Crop InitCond Et0 beta = Inr (p_up, p_lo)
           \<and> (\<forall>(i, K) \<in> set [(0, Ksw_Exp Ksw), (1, Ksw_Sto Ksw), (2, Ksw_Sen Ksw),
                                (3, Ksw_Pol Ksw), (1, Ksw_StoLin Ksw)].
                 0 \<le> p_up ! i \<and> p_up ! i \<le> 1 \<and> 0 \<le> p_lo ! i \<and> p_lo ! i \<le> 1
                 \<and> 0 \<le> K \<and> K \<le> 1
                 \<and> (Dr / TAW \<le> p_up ! i \<longrightarrow> K = 1) \<and> (Dr = 0 \<longrightarrow> K = 1)
                 \<and> (p_lo ! i \<le> Dr / TAW \<and> p_up ! i < Dr / TAW \<longrightarrow> K = 0)
                 \<and> (1 < Dr / TAW \<longrightarrow> K = 0))"
proof -
  from assms(2) obtain p_up p_lo d0 d1 d2 d3 f0 f1 f2 k0 k1 k2 where
    t: "water_stress_thresholds Crop InitCond Et0 beta = Inr (p_up, p_lo)"
    and d: "relative_depletion Dr TAW (p_up ! 0) (p_lo ! 0) = Inr d0"
      "relative_depletion Dr TAW (p_up ! 1) (p_lo ! 1) = Inr d1"
      "relative_depletion Dr TAW (p_up ! 2) (p_lo ! 2) = Inr d2"
      "relative_depletion Dr TAW (p_up ! 3) (p_lo ! 3) = Inr d3"
    and k: "stress_coefficient d0 f0 = Inr k0" "stress_coefficient d1 f1 = Inr k1"
      "stress_coefficient d2 f2 = Inr k2"
    and K: "Ksw = \<lparr> Ksw_Exp = k0, Ksw_Sto = k1, Ksw_Sen = k2,
             Ksw_Pol = 1 - d3, Ksw_StoLin = 1 - d1 \<rparr>"
    unfolding water_stress_def
    by (auto elim!: ebind_InrE split: prod.splits)
  note dr = d [THEN relative_depletion_range [OF assms(1)]]
  note p0 = stress_pair [OF t _ assms(1) d(1), of k0]
    and p1 = stress_pair [OF t _ assms(1) d(2), of k1]
    and p2 = stress_pair [OF t _ assms(1) d(3), of k2]
    and p3 = stress_pair [OF t _ assms(1) d(4), of "1 - d3"]
    and p4 = stress_pair [OF t _ assms(1) d(2), of "1 - d1"]
  have "0 \<le> k0 \<and> k0 \<le> 1 \<and> (d0 = 0 \<longrightarrow> k0 = 1) \<and> (d0 = 1 \<longrightarrow> k0 = 0)"
    using dr(1) by (intro stress_coefficient_range [OF k(1)]) simp_all
  note q0 = p0 [OF _ this]
  have "0 \<le> k1 \<and> k1 \<le> 1 \<and> (d1 = 0 \<longrightarrow> k1 = 1) \<and> (d1 = 1 \<longrightarrow> k1 = 0)"
    using dr(2) by (intro stress_coefficient_range [OF k(2)]) simp_all
  note q1 = p1 [OF _ this]
  have "0 \<le> k2 \<and> k2 \<le> 1 \<and> (d2 = 0 \<longrightarrow> k2 = 1) \<and> (d2 = 1 \<longrightarrow> k2 = 0)"
    using dr(3) by (intro stress_coefficient_range [OF k(3)]) simp_all
  note q2 = p2 [OF _ this]
  have "0 \<le> 1 - d3 \<and> 1 - d3 \<le> 1 \<and> (d3 = 0 \<longrightarrow> 1 - d3 = 1) \<and> (d3 = 1 \<longrightarrow> 1 - d3 = 0)"
    using dr(4) by simp
  note q3 = p3 [OF _ this]
  have "0 \<le> 1 - d1 \<and> 1 - d1 \<le> 1 \<and> (d1 = 0 \<longrightarrow> 1 - d1 = 1) \<and> (d1 = 1 \<longrightarrow> 1 - d1 = 0)"
    using dr(2) by simp
  note q4 = p4 [OF _ this]
  show ?thesis
    using t q0 q1 q2 q3 q4 unfolding K by simp
qed

theorem water_stress_bounds_witness:
  "(0::real) < 60
   \<and> water_stress example_Crop example_InitCond 60 60 5 True
       = Inr \<lparr> Ksw_Exp = 0, Ksw_Sto = 0, Ksw_Sen = 0, Ksw_Pol = 0, Ksw_StoLin = 0 \<rparr>
   \<and> (\<exists>p_up p_lo. water_stress_thresholds example_Crop example_InitCond 5 True
                     = Inr (p_up, p_lo)
         \<and> (\<forall>(i, K) \<in> set [(0, 0), (1, 0), (2, 0), (3, 0), (1, 0)].
               0 \<le> p_up ! i \<and> p_up ! i \<le> 1 \<and> 0 \<le> p_lo ! i \<and> p_lo ! i \<le> 1
               \<and> (0::real) \<le> K \<and> K \<le> 1
               \<and> ((60::real) / 60 \<le> p_up ! i \<longrightarrow> K = 1) \<and> ((60::real) = 0 \<longrightarrow> K = 1)
               \<and> (p_lo ! i \<le> 60 / 60 \<and> p_up ! i < 60 / 60 \<longrightarrow> K = 0)
               \<and> ((1::real) < 60 / 60 \<longrightarrow> K = 0)))"
proof -
  have run: "water_stress example_Crop example_InitCond 60 60 5 True
       = Inr \<lparr> Ksw_Exp = 0, Ksw_Sto = 0, Ksw_Sen = 0, Ksw_Pol = 0, Ksw_StoLin = 0 \<rparr>"
    by (simp add: water_stress_def water_stress_thresholds_def example_Crop_def
        example_InitCond_def relative_depletion_def stress_coefficient_def ebind_def nth_e_def
        div_e_def Let_def)
  have pos: "(0::real) < 60" by simp
  from water_stress_bounds [OF pos run] run show ?thesis
    by simp
qed

text \<open>
  The claim as stated fails where upper and lower threshold coincide: with all thresholds
  \<open>0.5\<close> (so \<open>0 \<le> p_up \<le> p_lo \<le> 1\<close>) and \<open>Dr / TAW = 0.5\<close>, the relative depletion is at
  the lower threshold, yet the first branch (\<open>Dr <= p_up * TAW\<close>) applies and every
  coefficient is 1, not 0.
\<close>

theorem water_stress_coinciding_thresholds_counterexample:
  "water_stress
     (example_Crop\<lparr> cr_p_up := [0.5, 0.5, 0.5, 0.5], cr_p_lo := [0.5, 0.5, 0.5, 0.5] \<rparr>)
     example_InitCond 30 60 5 False
     = Inr \<lparr> Ksw_Exp = 1, Ksw_Sto = 1, Ksw_Sen = 1, Ksw_Pol = 1, Ksw_StoLin = 1 \<rparr>
   \<and> (0::real) < 60 \<and> [0.5, 0.5, 0.5, 0.5 :: real] ! 1 \<le> 30 / 60
   \<and> Ksw_Sto \<lparr> Ksw_Exp = 1, Ksw_Sto = 1, Ksw_Sen = 1, Ksw_Pol = 1, Ksw_StoLin = 1 \<rparr> \<noteq> 0"
  by (simp add: water_stress_def water_stress_thresholds_def example_Crop_def
      example_InitCond_def relative_depletion_def stress_coefficient_def ebind_def nth_e_def
      div_e_def Let_def)


subsection \<open>Canopy cover\<close>

lemma cc_growth_formulas_agree:
  assumes "0 < CCo" and "0 < CCx" and "cc_exponential_growth CCo CGC dt = CCx / 2"
  shows "cc_exponential_decay CCo CCx CGC dt = CCx / 2"
proof -
  from assms have e: "exp (CGC * dt) = CCx / (2 * CCo)"
    by (simp add: cc_exponential_growth_def field_simps)
  then have "exp (- CGC * dt) = 2 * CCo / CCx"
    by (simp add: exp_minus field_simps)
  with assms(1,2) show ?thesis
    by (simp add: cc_exponential_decay_def field_simps)
qed

lemma cc_growth_continuous:
  assumes "0 < CCo" and "0 < CCx"
  shows "continuous_on UNIV (\<lambda>dt. if CCx / 2 < cc_exponential_growth CCo CGC dt
            then cc_exponential_decay CCo CCx CGC dt else cc_exponential_growth CCo CGC dt)"
proof -
  let ?e = "cc_exponential_growth CCo CGC" and ?d = "cc_exponential_decay CCo CCx CGC"
  have ce: "continuous_on UNIV ?e"
    unfolding cc_exponential_growth_def by (intro continuous_intros)
  have cd: "continuous_on UNIV ?d"
    unfolding cc_exponential_decay_def by (intro continuous_intros)
  have c1: "closed {t. CCx / 2 \<le> ?e t}"
    using ce by (intro closed_Collect_le continuous_on_const) 
  have c2: "closed {t. ?e t \<le> CCx / 2}"
    using ce by (intro closed_Collect_le continuous_on_const)
  have "continuous_on ({t. CCx / 2 \<le> ?e t} \<union> {t. ?e t \<le> CCx / 2})
          (\<lambda>dt. if CCx / 2 < ?e dt then ?d dt else ?e dt)"
  proof (rule continuous_on_If [OF c1 c2])
    show "continuous_on {t. CCx / 2 \<le> ?e t} ?d"
      using cd by (rule continuous_on_subset) simp
    show "continuous_on {t. ?e t \<le> CCx / 2} ?e"
      using ce by (rule continuous_on_subset) simp
  next
    fix x assume "x \<in> {t. CCx / 2 \<le> ?e t}" "\<not> CCx / 2 < ?e x"
    then have "?e x = CCx / 2" by simp
    with cc_growth_formulas_agree [OF assms this] show "?d x = ?e x" by simp
  next
    fix x assume "x \<in> {t. ?e t \<le> CCx / 2}" "CCx / 2 < ?e x"
    then show "?d x = ?e x" by simp
  qed
  moreover have "{t. CCx / 2 \<le> ?e t} \<union> {t. ?e t \<le> CCx / 2} = UNIV"
    by auto
  ultimately show ?thesis by simp
qed

lemma cc_development_growth_eq:
  assumes "0 < CCo"
  shows "(case cc_development CCo CCx CGC CDC dt ''Growth'' CCx0 of Inr CC \<Rightarrow> CC | Inl e \<Rightarrow> 0)
         = max 0 (min 1 (min CCx
             (if CCx / 2 < cc_exponential_growth CCo CGC dt
              then cc_exponential_decay CCo CCx CGC dt else cc_exponential_growth CCo CGC dt)))"
  using assms by (auto simp add: cc_development_def ebind_def Let_def min_def max_def)

lemma cc_development_growth_continuous:
  assumes "0 < CCo" and "0 < CCx"
  shows "continuous_on UNIV
           (\<lambda>dt. case cc_development CCo CCx CGC CDC dt ''Growth'' CCx0 of
                    Inr CC \<Rightarrow> CC | Inl e \<Rightarrow> 0)"
  unfolding cc_development_growth_eq [OF assms(1)]
  by (intro continuous_intros cc_growth_continuous [OF assms])

text \<open>
  Claim C6. In the growth mode of \<open>cc_development\<close> the two formulas agree at the
  switch point: for \<open>CCo > 0\<close> and \<open>CCx > 0\<close>, whenever \<open>CCo * exp (CGC * dt) = CCx / 2\<close>
  the exponential-decay formula is \<open>CCx / 2\<close> as well. There \<open>cc_development\<close> returns
  \<open>CCx / 2\<close> (limited to 1), and as a function of \<open>dt\<close> it is continuous at that point.
\<close>

theorem cc_development_switch_point:
  assumes "0 < CCo" and "0 < CCx" and "cc_exponential_growth CCo CGC dt = CCx / 2"
  shows "cc_exponential_decay CCo CCx CGC dt = CCx / 2
         \<and> cc_development CCo CCx CGC CDC dt ''Growth'' CCx0 = Inr (min (CCx / 2) 1)
         \<and> isCont (\<lambda>t. case cc_development CCo CCx CGC CDC t ''Growth'' CCx0 of
                          Inr CC \<Rightarrow> CC | Inl e \<Rightarrow> 0) dt"
proof -
  note d = cc_growth_formulas_agree [OF assms]
  from assms have v: "cc_development CCo CCx CGC CDC dt ''Growth'' CCx0 = Inr (min (CCx / 2) 1)"
    by (simp add: cc_development_def ebind_def Let_def min_def)
  from cc_development_growth_continuous [OF assms(1,2)]
  have "isCont (\<lambda>t. case cc_development CCo CCx CGC CDC t ''Growth'' CCx0 of
                          Inr CC \<Rightarrow> CC | Inl e \<Rightarrow> 0) dt"
    by (simp add: continuous_on_eq_continuous_at)
  with d v show ?thesis by simp
qed

theorem cc_development_switch_point_witness:
  "(0::real) < 0.05 \<and> (0::real) < 0.8 \<and> cc_exponential_growth 0.05 1 (ln 8) = 0.8 / 2
   \<and> cc_exponential_decay 0.05 0.8 1 (ln 8) = 0.8 / 2
   \<and> cc_development 0.05 0.8 1 0.01 (ln 8) ''Growth'' 0.8 = Inr (min (0.8 / 2) 1)
   \<and> isCont (\<lambda>t. case cc_development 0.05 0.8 1 0.01 t ''Growth'' 0.8 of
                    Inr CC \<Rightarrow> CC | Inl e \<Rightarrow> 0) (ln 8)"
proof -
  have h: "(0::real) < 0.05" "(0::real) < 0.8" "cc_exponential_growth 0.05 1 (ln 8) = 0.8 / 2"
    by (simp_all add: cc_exponential_growth_def)
  from cc_development_switch_point [OF h, of "0.01" "0.8"] h show ?thesis
    by simp
qed

text \<open>
  Claim C7. Round trip of the inversion of canopy growth: for \<open>0 < CCo < CCprev < CCx \<le> 1\<close>
  and \<open>CGC > 0\<close>, \<open>cc_required_time\<close> in mode \<open>CGC\<close> returns a time, and
  \<open>cc_development\<close> in mode \<open>Growth\<close> at that time returns exactly \<open>CCprev\<close>.
\<close>

theorem cc_required_time_round_trip:
  assumes "0 < CCo" and "CCo < CCprev" and "CCprev < CCx" and "CCx \<le> 1" and "0 < CGC"
  shows "\<exists>tReq. cc_required_time CCprev CCo CCx CGC CDC ''CGC'' = Inr tReq
           \<and> cc_development CCo CCx CGC CDC tReq ''Growth'' CCx0 = Inr CCprev"
proof (cases "CCprev \<le> CCx / 2")
  case True
  define tReq where "tReq = ln (CCprev / CCo) / CGC"
  from assms True have t: "cc_required_time CCprev CCo CCx CGC CDC ''CGC'' = Inr tReq"
    by (simp add: cc_required_time_def ebind_def div_e_def ln_e_def tReq_def)
  from assms have "exp (CGC * tReq) = CCprev / CCo"
    by (simp add: tReq_def)
  with assms have "cc_exponential_growth CCo CGC tReq = CCprev"
    by (simp add: cc_exponential_growth_def)
  with assms True have "cc_development CCo CCx CGC CDC tReq ''Growth'' CCx0 = Inr CCprev"
    by (simp add: cc_development_def ebind_def Let_def)
  with t show ?thesis by blast
next
  case False
  define A where "A = (0.25 * CCx * CCx / CCo) / (CCx - CCprev)"
  define tReq where "tReq = ln A / CGC"
  from assms have A: "0 < A"
    by (simp add: A_def)
  with assms False have t: "cc_required_time CCprev CCo CCx CGC CDC ''CGC'' = Inr tReq"
    by (simp add: cc_required_time_def ebind_def div_e_def ln_e_def tReq_def A_def)
  from assms A have e: "exp (CGC * tReq) = A"
    by (simp add: tReq_def)
  then have e': "exp (- CGC * tReq) = 1 / A"
    by (simp add: exp_minus field_simps)
  from assms e have g: "cc_exponential_growth CCo CGC tReq = 0.25 * CCx * CCx / (CCx - CCprev)"
    by (simp add: cc_exponential_growth_def A_def)
  from assms False have "(CCx - CCprev) * 2 < CCx" by simp
  with assms have "CCx / 2 * (CCx - CCprev) < 0.25 * CCx * CCx"
    by (simp add: field_simps)
  with assms have gt: "CCx / 2 < 0.25 * CCx * CCx / (CCx - CCprev)"
    by (simp add: pos_less_divide_eq)
  from assms e' have d: "cc_exponential_decay CCo CCx CGC tReq = CCprev"
    by (simp add: cc_exponential_decay_def A_def field_simps)
  from assms g gt d have "cc_development CCo CCx CGC CDC tReq ''Growth'' CCx0 = Inr CCprev"
    by (simp add: cc_development_def ebind_def Let_def)
  with t show ?thesis by blast
qed

theorem cc_required_time_round_trip_witness:
  "(0::real) < 0.05 \<and> (0.05::real) < 0.6 \<and> (0.6::real) < 0.8 \<and> (0.8::real) \<le> 1
   \<and> (0::real) < 0.1
   \<and> (\<exists>tReq. cc_required_time 0.6 0.05 0.8 0.1 0.01 ''CGC'' = Inr tReq
         \<and> cc_development 0.05 0.8 0.1 0.01 tReq ''Growth'' 0.8 = Inr 0.6)"
  using cc_required_time_round_trip [of "0.05" "0.6" "0.8" "0.1" "0.01" "0.8"] by simp

lemma canopy_lower: "0 \<le> (CC::real) \<Longrightarrow> 0 \<le> canopy_cover_adjusted CC"
proof -
  assume a: "0 \<le> CC"
  have "canopy_cover_adjusted CC = CC * (0.3 * (CC - 5 / 3) ^ 2 + (1.72 - 5 / 6))"
    by (simp add: canopy_cover_adjusted_def power2_eq_square power3_eq_cube algebra_simps)
  moreover have "0 \<le> 0.3 * (CC - 5 / 3) ^ 2 + (1.72 - 5 / 6)"
    by simp
  ultimately show ?thesis using a by simp
qed

lemma canopy_upper: "(CC::real) \<le> 1 \<Longrightarrow> canopy_cover_adjusted CC \<le> 1.02"
proof -
  assume a: "CC \<le> 1"
  have "1.02 - canopy_cover_adjusted CC = (1 - CC) * (0.3 * (CC - 7 / 6) ^ 2 + (1.02 - 49 / 120))"
    by (simp add: canopy_cover_adjusted_def power2_eq_square power3_eq_cube field_simps)
  moreover have "0 \<le> 0.3 * (CC - 7 / 6) ^ 2 + (1.02 - 49 / 120)"
    by simp
  ultimately have "0 \<le> 1.02 - canopy_cover_adjusted CC" using a by simp
  then show ?thesis by simp
qed


text \<open>
  Claim C4, amended. For every canopy cover \<open>CC\<close> in \<open>[0, 1]\<close>, the adjustment computed
  by \<open>canopy_cover\<close>, \<open>CCadj = 1.72 * CC - CC\<^sup>2 + 0.3 * CC\<^sup>3\<close>, lies in \<open>[0, 1.02]\<close>.
\<close>

theorem canopy_cover_adjusted_range:
  assumes "0 \<le> CC" and "CC \<le> 1"
  shows "0 \<le> canopy_cover_adjusted CC \<and> canopy_cover_adjusted CC \<le> 1.02
         \<and> (ic_CC NewCond = CC \<longrightarrow>
              ic_CCadj (canopy_cover_finish NewCond tCCadj Crop_CanopyDevEnd True)
                = canopy_cover_adjusted CC)"
  using canopy_lower [OF assms(1)] canopy_upper [OF assms(2)]
  by (simp add: canopy_cover_finish_def Let_def)

theorem canopy_cover_adjusted_range_witness:
  "(0::real) \<le> 0.9 \<and> (0.9::real) \<le> 1
   \<and> 0 \<le> canopy_cover_adjusted 0.9 \<and> canopy_cover_adjusted 0.9 \<le> 1.02
   \<and> ic_CC example_InitCond = 0.9
   \<and> ic_CCadj (canopy_cover_finish example_InitCond 70 72 True) = canopy_cover_adjusted 0.9"
  using canopy_cover_adjusted_range [of "0.9" example_InitCond 70 72]
  by (simp add: example_InitCond_def)

text \<open>
  The claim as stated, with the upper bound 1, fails at full cover: for \<open>CC = 1\<close> the
  adjusted cover is \<open>1.72 - 1 + 0.3 = 1.02\<close>.
\<close>

theorem canopy_cover_adjusted_full_cover_counterexample:
  "(0::real) \<le> 1 \<and> (1::real) \<le> 1
   \<and> ic_CCadj (canopy_cover_finish (example_InitCond\<lparr> ic_CC := 1 \<rparr>) 70 72 True) = 1.02
   \<and> canopy_cover_adjusted 1 = 1.02 \<and> \<not> canopy_cover_adjusted 1 \<le> 1"
  by (simp add: canopy_cover_finish_def canopy_cover_adjusted_def Let_def example_InitCond_def)

subsection \<open>Aeration stress\<close>

lemma aeration_stress_reset:
  "thRZ_Act thRZ \<le> thRZ_Aer thRZ \<Longrightarrow> aeration_stress NewCond_AerDays Crop_LagAer thRZ = Inr (1, 0)"
  by (simp add: aeration_stress_def)

lemma aeration_stress_range_first_days:
  assumes "thRZ_Aer thRZ < thRZ_Act thRZ" and "thRZ_Act thRZ \<le> thRZ_S thRZ"
    and "0 \<le> NewCond_AerDays" and "NewCond_AerDays < Crop_LagAer \<longrightarrow> NewCond_AerDays \<le> 3"
  shows "\<exists>Ksa_Aer d. aeration_stress NewCond_AerDays Crop_LagAer thRZ = Inr (Ksa_Aer, d)
           \<and> 0 \<le> Ksa_Aer \<and> Ksa_Aer \<le> 1"
proof -
  let ?q = "(thRZ_S thRZ - thRZ_Act thRZ) / (thRZ_S thRZ - thRZ_Aer thRZ)"
  from assms(1,2) have q: "0 \<le> ?q" "?q \<le> 1" and nz: "thRZ_S thRZ - thRZ_Aer thRZ \<noteq> 0"
    by (simp_all add: field_simps)
  show ?thesis
  proof (cases "NewCond_AerDays < Crop_LagAer")
    case True
    define a :: real where "a = of_int NewCond_AerDays / 3"
    from True assms(3,4) have a: "0 \<le> a" "a \<le> 1"
      by (simp_all add: a_def)
    from q have s: "0 \<le> 1 - ?q" "1 - ?q \<le> 1" by simp_all
    from a s have "0 \<le> a * (1 - ?q)" "a * (1 - ?q) \<le> 1"
      by (auto intro: mult_nonneg_nonneg mult_le_one)
    then have r: "0 \<le> 1 - a * (1 - ?q)" "1 - a * (1 - ?q) \<le> 1"
      by simp_all
    from True assms(1) nz have "\<exists>d. aeration_stress NewCond_AerDays Crop_LagAer thRZ
        = Inr (1 - a * (1 - ?q), d)"
      by (simp add: aeration_stress_def ebind_def div_e_def Let_def a_def)
    with r show ?thesis by blast
  next
    case False
    with assms(1) nz q show ?thesis
      by (simp add: aeration_stress_def ebind_def div_e_def Let_def)
  qed
qed

text \<open>
  Claim C9: the code departs from it. With a lag of five days and a day counter of
  four (below the lag), at saturation (\<open>thRZ.Aer < thRZ.Act = thRZ.S\<close>), \<open>aeration_stress\<close>
  returns the coefficient \<open>1 - 4 / 3 = - 1 / 3\<close>, outside \<open>[0, 1]\<close>: the ramp divides the
  day counter by the literal 3, not by the lag \<open>Crop_LagAer\<close>.
\<close>

theorem aeration_stress_negative_coefficient:
  "aeration_stress 4 5
     \<lparr> thRZ_Act = 0.5, thRZ_S = 0.5, thRZ_FC = 0.3, thRZ_WP = 0.1, thRZ_Dry = 0.05,
       thRZ_Aer = 0.45 \<rparr>
     = Inr (- 1 / 3, 5)"
  by code_simp


subsection \<open>Biomass accumulation\<close>

text \<open>What the \<open>isnan\<close> guard does achieve: the actual biomass never becomes NaN.\<close>

lemma f_add_not_nan: "isfinite x \<Longrightarrow> \<not> isnan y \<Longrightarrow> \<not> isnan (f_add x y)"
  by (cases x; cases y) simp_all

lemma biomass_accumulation_B_not_nan:
  assumes "biomass_accumulation em Crop InitCond Tr TrPot Et0 GrowingSeason = Inr NewCond"
    and "isfinite (bi_B InitCond)"
  shows "\<not> isnan (bi_B NewCond)"
proof (cases GrowingSeason)
  case True
  with assms(1) obtain dB where
    "bi_B NewCond = f_add (bi_B InitCond) (if isnan dB then Finite 0 else dB)"
    unfolding biomass_accumulation_def Let_def
    by (auto elim!: ebind_InrE)
  moreover have "\<not> isnan (if isnan dB then Finite 0 else dB)"
    by simp
  ultimately show ?thesis
    using f_add_not_nan [OF assms(2)] by simp
next
  case False
  with assms(1) show ?thesis
    by (auto simp: biomass_accumulation_def Let_def)
qed

text \<open>
  Claim C3: the code departs from it. Only a NaN of the actual increment \<open>dB\<close> is
  replaced by zero. On a day with \<open>Et0 = 0\<close> and no transpiration (\<open>Tr = TrPot = 0\<close>) both
  increments are \<open>0 / 0\<close>: \<open>B\<close> keeps its value, but the unguarded \<open>dB_NS\<close> makes \<open>B_NS\<close> a
  NaN (under the Python error model the call raises instead). With \<open>Et0 = 0\<close> and positive
  transpiration the increments are infinite, are not replaced, and both totals become
  infinite.
\<close>

theorem biomass_accumulation_increment_not_coerced:
  "biomass_accumulation Numpy_error_model example_BiomassCrop example_BiomassCond
     (Finite 0) (Finite 0) (Finite 0) True
     = Inr (example_BiomassCond\<lparr> bi_B := Finite 900, bi_B_NS := NaN \<rparr>)
   \<and> biomass_accumulation Python_error_model example_BiomassCrop example_BiomassCond
       (Finite 0) (Finite 0) (Finite 0) True
     = Inl ZeroDivisionError
   \<and> biomass_accumulation Numpy_error_model example_BiomassCrop example_BiomassCond
       (Finite 2) (Finite 3) (Finite 0) True
     = Inr (example_BiomassCond\<lparr> bi_B := PosInf, bi_B_NS := PosInf \<rparr>)"
  by code_simp


subsection \<open>Harvest index\<close>

lemma capped_multiplier_bound:
  fixes m HI0 d M :: real
  assumes "0 \<le> m" and "m \<le> HI0" and "0 \<le> d"
  shows "(if 1 + d < M then 1 + d else M) * m \<le> HI0 * (1 + d)"
proof -
  have "(if 1 + d < M then 1 + d else M) \<le> 1 + d" by simp
  from this assms(1) have "(if 1 + d < M then 1 + d else M) * m \<le> (1 + d) * m"
    by (rule mult_right_mono)
  also from assms(2,3) have "(1 + d) * m \<le> (1 + d) * HI0"
    by (intro mult_left_mono) simp_all
  finally show ?thesis by (simp add: mult.commute)
qed

lemma water_stress_Pol_nonneg:
  assumes "0 < TAW" and "water_stress Crop InitCond Dr TAW Et0 beta = Inr Ksw"
  shows "0 \<le> Ksw_Pol Ksw"
proof -
  from assms(2) obtain pu pl d3 where
    "relative_depletion Dr TAW pu pl = Inr d3" and "Ksw_Pol Ksw = 1 - d3"
    unfolding water_stress_def
    by (auto elim!: ebind_InrE split: prod.splits)
  with relative_depletion_range [OF assms(1), of Dr pu pl d3] show ?thesis
    by simp
qed

lemma root_zone_water_TAW_nonneg:
  assumes "root_zone_water prof Zroot th zTop Zmin Aer = Inr (WrAct', Dr, TAW, thRZ)"
  shows "0 \<le> TAW_Rz TAW \<and> 0 \<le> TAW_Zt TAW"
  using assms unfolding root_zone_water_def top_soil_water_def Let_def
  by (auto elim!: ebind_InrE split: prod.splits if_splits)

lemma logistic_pollination_nonneg:
  "logistic_pollination f Trel = Inr k \<Longrightarrow> 0 \<le> k"
  by (auto simp: logistic_pollination_def div_e_def Let_def split: if_splits
      intro!: divide_nonneg_nonneg add_nonneg_nonneg)

lemma temperature_stress_nonneg:
  assumes "temperature_stress Kst_init Crop Tmax Tmin = Inr Kst"
    and "cr_PolHeatStress Crop \<in> {0, 1}" and "cr_PolColdStress Crop \<in> {0, 1}"
  shows "0 \<le> Kst_PolH Kst \<and> 0 \<le> Kst_PolC Kst"
  using assms unfolding temperature_stress_def Let_def
  apply (auto elim!: ebind_InrE split: if_splits)
         apply (erule logistic_pollination_nonneg)+
  done

lemma fractional_flowering_nonneg:
  "fractional_flowering t FloweringCD = Inr F \<Longrightarrow> 0 \<le> F"
  unfolding fractional_flowering_def Let_def
  by (auto elim!: ebind_InrE split: if_splits)

lemma HIadj_pollination_nonneg:
  assumes r: "HIadj_pollination CC Fpol FloweringCD CCmin exc Ksw Kst HIt = Inr F"
    and "0 \<le> Fpol" and "0 < FloweringCD" and "- 100 \<le> exc"
    and "0 \<le> Ksw_Pol Ksw" and "0 \<le> Kst_PolC Kst" and "0 \<le> Kst_PolH Kst"
  shows "0 \<le> F"
proof -
  from r obtain FracFlow dFpol where
    ff: "(if HIt = 0 then Inr (Some 0)
            else if 0 < HIt then
              ebind (fractional_flowering (HIt - 1) FloweringCD) (\<lambda>F1.
              ebind (fractional_flowering HIt FloweringCD) (\<lambda>F2.
                if \<bar>F1 - F2\<bar> < 0.0000001 then Inr (Some 0)
                else ebind (div_e (100 * ((F1 + F2) / 2)) FloweringCD) (\<lambda>F.
                       Inr (Some F))))
            else Inr None) = Inr FracFlow"
    and d: "(if CC < CCmin then Inr 0
            else
              (case FracFlow of
                 None \<Rightarrow> Inl UnboundLocalError
               | Some FracFlow \<Rightarrow>
                   (let Ks = min (min (Ksw_Pol Ksw) (Kst_PolC Kst)) (Kst_PolH Kst)
                    in Inr (Ks * FracFlow * (1 + (exc / 100))))) ) = Inr dFpol"
    and F: "F = (if 1 < Fpol + dFpol then 1 else Fpol + dFpol)"
    unfolding HIadj_pollination_def Let_def
    by (auto elim!: ebind_InrE)
  have ffn: "FracFlow = Some x \<Longrightarrow> 0 \<le> x" for x
    using ff assms(3)
    by (auto elim!: ebind_InrE split: if_splits simp: div_e_def
        dest!: fractional_flowering_nonneg)
  have "0 \<le> dFpol"
  proof (cases "CC < CCmin")
    case True
    with d show ?thesis by simp
  next
    case False
    with d obtain x where x: "FracFlow = Some x"
      and dF: "dFpol = min (min (Ksw_Pol Ksw) (Kst_PolC Kst)) (Kst_PolH Kst) * x * (1 + exc / 100)"
      by (auto split: option.splits simp: Let_def)
    from assms(5,6,7) have "0 \<le> min (min (Ksw_Pol Ksw) (Kst_PolC Kst)) (Kst_PolH Kst)"
      by simp
    moreover from assms(4) have "0 \<le> 1 + exc / 100" by simp
    ultimately show ?thesis
      using ffn [OF x] unfolding dF by (intro mult_nonneg_nonneg)
  qed
  with assms(2) F show ?thesis by simp
qed

lemma HIadj_pre_anthesis_Fpol:
  "HIadj_pre_anthesis c d = Inr c' \<Longrightarrow> ic_Fpol c' = ic_Fpol c"
  unfolding HIadj_pre_anthesis_def Let_def
  by (auto elim!: ebind_InrE split: if_splits)


lemma yield_formation_bound:
  assumes r: "harvest_index_yield_formation Crop NewCond PreAdj Ksw Kst HIi HIt
                = Inr (NewCond', HIi', HIadj)"
    and h: "0 \<le> HIi" "HIi \<le> cr_HI0 Crop" "0 \<le> cr_dHI0 Crop"
    and p: "cr_CropType Crop = 3 \<longrightarrow>
              0 \<le> ic_Fpol NewCond \<and> - 100 \<le> cr_exc Crop
              \<and> 0 \<le> Ksw_Pol Ksw \<and> 0 \<le> Kst_PolC Kst \<and> 0 \<le> Kst_PolH Kst"
  shows "HIi' = HIi \<and> HIadj \<le> cr_HI0 Crop * (1 + cr_dHI0 Crop / 100)"
proof (cases "cr_CropType Crop = 2 \<or> cr_CropType Crop = 3")
  case False
  with r have "HIi' = HIi" "HIadj = HIi"
    by (auto simp: harvest_index_yield_formation_def split: if_splits)
  moreover from h have "HIi \<le> cr_HI0 Crop * (1 + cr_dHI0 Crop / 100)"
    using capped_multiplier_bound [of HIi "cr_HI0 Crop" "cr_dHI0 Crop / 100" 1] by simp
  ultimately show ?thesis by simp
next
  case True
  with r obtain N1 N2 HImax M where
    pre: "(if \<not> PreAdj then
             HIadj_pre_anthesis (NewCond\<lparr> ic_PreAdj := True \<rparr>) (cr_dHI_pre Crop)
           else Inr NewCond) = Inr N1"
    and pol: "(if cr_CropType Crop = 3 then
                 ebind (if 0 < HIt \<and> HIt \<le> cr_FloweringCD Crop then
                          ebind (HIadj_pollination (ic_CC N1) (ic_Fpol N1)
                                   (cr_FloweringCD Crop) (cr_CCmin Crop) (cr_exc Crop)
                                   Ksw Kst HIt) (\<lambda>Fpol.
                            Inr (N1\<lparr> ic_Fpol := Fpol \<rparr>))
                        else Inr N1) (\<lambda>NewCond.
                 Inr (NewCond, ic_Fpol NewCond * cr_HI0 Crop))
               else Inr (N1, cr_HI0 Crop)) = Inr (N2, HImax)"
    and res: "HIi' = HIi"
      "HIadj = (if HIi \<le> HImax
                then (if 1 + cr_dHI0 Crop / 100 < M then 1 + cr_dHI0 Crop / 100 else M) * HIi
                else (if 1 + cr_dHI0 Crop / 100 < M then 1 + cr_dHI0 Crop / 100 else M) * HImax)"
    unfolding harvest_index_yield_formation_def Let_def
    by (auto elim!: ebind_InrE split: prod.splits)
  from pre have f1: "ic_Fpol N1 = ic_Fpol NewCond"
    by (auto split: if_splits dest: HIadj_pre_anthesis_Fpol)
  from h have HI0: "0 \<le> cr_HI0 Crop" by simp
  have HImax: "0 \<le> HImax"
  proof (cases "cr_CropType Crop = 3")
    case False
    with pol HI0 show ?thesis by simp
  next
    case c3: True
    with p f1 have q: "0 \<le> ic_Fpol N1" "- 100 \<le> cr_exc Crop"
      "0 \<le> Ksw_Pol Ksw" "0 \<le> Kst_PolC Kst" "0 \<le> Kst_PolH Kst"
      by simp_all
    from pol c3 have "0 \<le> ic_Fpol N2 \<and> HImax = ic_Fpol N2 * cr_HI0 Crop"
      using q
      by (auto elim!: ebind_InrE split: if_splits
          intro: HIadj_pollination_nonneg [where Fpol = "ic_Fpol N1"])
    with HI0 show ?thesis by simp
  qed
  define m where "m = (if HIi \<le> HImax then HIi else HImax)"
  from h HImax have m: "0 \<le> m" "m \<le> cr_HI0 Crop"
    by (simp_all add: m_def)
  from res(2) have
    "HIadj = (if 1 + cr_dHI0 Crop / 100 < M then 1 + cr_dHI0 Crop / 100 else M) * m"
    by (simp add: m_def)
  with capped_multiplier_bound [OF m, of "cr_dHI0 Crop / 100" M] h(3) res(1) show ?thesis
    by simp
qed


lemma harvest_index_window_step:
  assumes rz: "root_zone_water Soil_Profile Zroot th Soil_zTop Zmin Aer
                 = Inr (WrAct', Dr_obj, TAW_obj, thRZ)"
    and T: "T = TAW_Rz TAW_obj \<or> T = TAW_Zt TAW_obj" "T \<noteq> 0"
    and ws: "water_stress Crop InitCond D T Et0 True = Inr Ksw"
    and ts: "temperature_stress Kst_init Crop Tmax Tmin = Inr Kst"
    and yf: "harvest_index_yield_formation Crop InitCond PreAdj Ksw Kst (ic_HIref InitCond) HIt
               = Inr (N, HIi, HIadj)"
    and h: "0 \<le> ic_HIref InitCond" "ic_HIref InitCond \<le> cr_HI0 Crop" "0 \<le> cr_dHI0 Crop"
    and p: "cr_CropType Crop = 3 \<longrightarrow>
              0 \<le> ic_Fpol InitCond \<and> - 100 \<le> cr_exc Crop
              \<and> cr_PolHeatStress Crop \<in> {0, 1} \<and> cr_PolColdStress Crop \<in> {0, 1}"
  shows "HIadj \<le> cr_HI0 Crop * (1 + cr_dHI0 Crop / 100)"
proof -
  from root_zone_water_TAW_nonneg [OF rz] T have Tpos: "0 < T"
    by auto
  have "cr_CropType Crop = 3 \<longrightarrow>
            0 \<le> ic_Fpol InitCond \<and> - 100 \<le> cr_exc Crop
            \<and> 0 \<le> Ksw_Pol Ksw \<and> 0 \<le> Kst_PolC Kst \<and> 0 \<le> Kst_PolH Kst"
    using p water_stress_Pol_nonneg [OF Tpos ws] temperature_stress_nonneg [OF ts]
    by simp
  from yield_formation_bound [OF yf h this] show ?thesis
    by simp
qed

text \<open>
  Claim C5, amended. For every call to \<open>harvest_index\<close> during the growing season that
  returns, with \<open>0 \<le> HIref \<le> HI0\<close> and \<open>dHI0 \<ge> 0\<close> and, for a fruit or grain crop (type 3),
  \<open>Fpol \<ge> 0\<close>, \<open>exc \<ge> -100\<close> and heat and cold stress switches in \<open>{0, 1}\<close>: inside the
  yield-formation window (\<open>YieldForm\<close> true and \<open>HIt \<ge> 0\<close>) the returned \<open>HIadj\<close> does not
  exceed \<open>HI0 * (1 + dHI0 / 100)\<close>; outside the window \<open>HI\<close> and \<open>HIadj\<close> are left at their
  previous values; so \<open>HIadj\<close> stays within the bound whenever it was within it before.
\<close>

theorem harvest_index_bound:
  assumes r: "harvest_index Kst_init Soil_Profile Soil_zTop Crop InitCond Et0 Tmax Tmin True
                = Inr NewCond"
    and h: "0 \<le> ic_HIref InitCond" "ic_HIref InitCond \<le> cr_HI0 Crop" "0 \<le> cr_dHI0 Crop"
    and p: "cr_CropType Crop = 3 \<longrightarrow>
              0 \<le> ic_Fpol InitCond \<and> - 100 \<le> cr_exc Crop
              \<and> cr_PolHeatStress Crop \<in> {0, 1} \<and> cr_PolColdStress Crop \<in> {0, 1}"
  shows "(ic_YieldForm InitCond \<and> 0 \<le> harvest_index_time Crop InitCond \<longrightarrow>
            ic_HIadj NewCond \<le> cr_HI0 Crop * (1 + cr_dHI0 Crop / 100))
         \<and> (\<not> (ic_YieldForm InitCond \<and> 0 \<le> harvest_index_time Crop InitCond) \<longrightarrow>
              ic_HI NewCond = ic_HI InitCond \<and> ic_HIadj NewCond = ic_HIadj InitCond)
         \<and> (ic_HIadj InitCond \<le> cr_HI0 Crop * (1 + cr_dHI0 Crop / 100) \<longrightarrow>
              ic_HIadj NewCond \<le> cr_HI0 Crop * (1 + cr_dHI0 Crop / 100))"
proof (cases "ic_YieldForm InitCond \<and> 0 \<le> harvest_index_time Crop InitCond")
  case False
  with r have "ic_HI NewCond = ic_HI InitCond \<and> ic_HIadj NewCond = ic_HIadj InitCond"
    unfolding harvest_index_def Let_def
    by (auto elim!: ebind_InrE split: prod.splits)
  with False show ?thesis by auto
next
  case True
  with r have "\<exists>WrAct' Dr_obj TAW_obj thRZ T D Ksw Kst N HIi.
      root_zone_water Soil_Profile (ic_Zroot InitCond) (ic_th InitCond) Soil_zTop
           (cr_Zmin Crop) (cr_Aer Crop) = Inr (WrAct', Dr_obj, TAW_obj, thRZ)
      \<and> (T = TAW_Rz TAW_obj \<or> T = TAW_Zt TAW_obj) \<and> T \<noteq> 0
      \<and> water_stress Crop InitCond D T Et0 True = Inr Ksw
      \<and> temperature_stress Kst_init Crop Tmax Tmin = Inr Kst
      \<and> harvest_index_yield_formation Crop InitCond (ic_PreAdj InitCond) Ksw Kst
           (ic_HIref InitCond) (harvest_index_time Crop InitCond)
           = Inr (N, HIi, ic_HIadj NewCond)"
    unfolding harvest_index_def Let_def
    apply simp
    apply (elim ebind_InrE)
    apply (clarsimp simp: div_e_def ebind_Inl ebind_Inr split: prod.splits if_splits)
     apply (elim ebind_InrE, clarsimp split: prod.splits, blast)+
    done
  then obtain WrAct' Dr_obj TAW_obj thRZ T D Ksw Kst N HIi where
    "root_zone_water Soil_Profile (ic_Zroot InitCond) (ic_th InitCond) Soil_zTop
           (cr_Zmin Crop) (cr_Aer Crop) = Inr (WrAct', Dr_obj, TAW_obj, thRZ)"
    "T = TAW_Rz TAW_obj \<or> T = TAW_Zt TAW_obj" "T \<noteq> 0"
    "water_stress Crop InitCond D T Et0 True = Inr Ksw"
    "temperature_stress Kst_init Crop Tmax Tmin = Inr Kst"
    "harvest_index_yield_formation Crop InitCond (ic_PreAdj InitCond) Ksw Kst
           (ic_HIref InitCond) (harvest_index_time Crop InitCond)
           = Inr (N, HIi, ic_HIadj NewCond)"
    by blast
  from harvest_index_window_step [OF this h p] True show ?thesis
    by simp
qed


theorem harvest_index_bound_witness:
  "harvest_index example_Kst example_prof 0.1 example_Crop example_InitCond_HI 5 30 15 True
     = Inr (example_InitCond_HI\<lparr> ic_sCor2 := 1 / 61, ic_fpost_dwn := 1 / 14,
              ic_Fpost := 1 / 14, ic_HI := 0.05, ic_HIadj := 1 / 280 \<rparr>)
   \<and> 0 \<le> ic_HIref example_InitCond_HI \<and> ic_HIref example_InitCond_HI \<le> cr_HI0 example_Crop
   \<and> 0 \<le> cr_dHI0 example_Crop \<and> cr_CropType example_Crop = 3
   \<and> 0 \<le> ic_Fpol example_InitCond_HI \<and> - 100 \<le> cr_exc example_Crop
   \<and> cr_PolHeatStress example_Crop \<in> {0, 1} \<and> cr_PolColdStress example_Crop \<in> {0, 1}
   \<and> ic_YieldForm example_InitCond_HI
   \<and> 0 \<le> harvest_index_time example_Crop example_InitCond_HI
   \<and> (1 / 280 :: real) \<le> cr_HI0 example_Crop * (1 + cr_dHI0 example_Crop / 100)"
proof -
  have run:
    "harvest_index example_Kst example_prof 0.1 example_Crop example_InitCond_HI 5 30 15 True
       = Inr (example_InitCond_HI\<lparr> ic_sCor2 := 1 / 61, ic_fpost_dwn := 1 / 14,
                ic_Fpost := 1 / 14, ic_HI := 0.05, ic_HIadj := 1 / 280 \<rparr>)"
    by (simp add: harvest_index_def example_Kst_def example_InitCond_HI_def
        example_InitCond_def example_Crop_def example_prof_def root_zone_water_def
        root_zone_counters_def round2_def py_round_def Let_def first_index_ge_def ebind_def
        upt_rec root_zone_step_def cover_factor_def nth_e_def div_e_def top_soil_step_def
        top_soil_water_def water_stress_def water_stress_thresholds_def
        relative_depletion_def stress_coefficient_def temperature_stress_def
        harvest_index_time_def harvest_index_yield_formation_def HIadj_post_anthesis_def)
  have h: "0 \<le> ic_HIref example_InitCond_HI"
    "ic_HIref example_InitCond_HI \<le> cr_HI0 example_Crop" "0 \<le> cr_dHI0 example_Crop"
    by (simp_all add: example_InitCond_HI_def example_InitCond_def example_Crop_def)
  have p: "cr_CropType example_Crop = 3" "0 \<le> ic_Fpol example_InitCond_HI"
    "- 100 \<le> cr_exc example_Crop" "cr_PolHeatStress example_Crop \<in> {0, 1}"
    "cr_PolColdStress example_Crop \<in> {0, 1}"
    by (simp_all add: example_InitCond_HI_def example_InitCond_def example_Crop_def)
  have w: "ic_YieldForm example_InitCond_HI"
    "0 \<le> harvest_index_time example_Crop example_InitCond_HI"
    by (simp_all add: harvest_index_time_def example_InitCond_HI_def example_InitCond_def
        example_Crop_def)
  from p have pp: "cr_CropType example_Crop = 3 \<longrightarrow>
      0 \<le> ic_Fpol example_InitCond_HI \<and> - 100 \<le> cr_exc example_Crop
      \<and> cr_PolHeatStress example_Crop \<in> {0, 1} \<and> cr_PolColdStress example_Crop \<in> {0, 1}"
    by simp
  from harvest_index_bound [OF run h pp] w have
    "(1 / 280 :: real) \<le> cr_HI0 example_Crop * (1 + cr_dHI0 example_Crop / 100)"
    by simp
  with run h p w show ?thesis
    by simp
qed

text \<open>
  The claim as stated, with only \<open>HIref \<le> HI0\<close> and \<open>Fpol \<le> 1\<close> assumed, fails in two
  ways. Outside the yield-formation window the previous \<open>HIadj\<close> is returned whatever its
  value, here \<open>0.7\<close> above the bound \<open>0.48 * 1.15\<close>. Inside the window, on the first day of
  yield formation (\<open>HIt = 0\<close>), a negative pollination fraction \<open>Fpol = - 1\<close> and a negative
  multiplier \<open>Fpost = - 2\<close> give \<open>HIadj = (- 2) * (- 0.48) = 0.96\<close>.
\<close>

theorem harvest_index_bound_counterexample:
  "harvest_index example_Kst example_prof 0.1 example_Crop
     (example_InitCond_HI\<lparr> ic_YieldForm := False, ic_HIadj := 0.7 \<rparr>) 5 30 15 True
     = Inr (example_InitCond_HI\<lparr> ic_YieldForm := False, ic_HIadj := 0.7 \<rparr>)
   \<and> ic_HIref example_InitCond_HI \<le> cr_HI0 example_Crop \<and> ic_Fpol example_InitCond_HI \<le> 1
   \<and> \<not> (0.7 :: real) \<le> cr_HI0 example_Crop * (1 + cr_dHI0 example_Crop / 100)
   \<and> harvest_index example_Kst example_prof 0.1 example_Crop
       (example_InitCond_HI\<lparr> ic_DAP := 67, ic_Fpol := - 1, ic_Fpost := - 2 \<rparr>) 5 30 15 True
     = Inr (example_InitCond_HI\<lparr> ic_DAP := 67, ic_Fpol := - 1, ic_Fpost := - 2,
              ic_HI := 0.05, ic_HIadj := 0.96 \<rparr>)
   \<and> ic_YieldForm example_InitCond_HI
   \<and> 0 \<le> harvest_index_time example_Crop (example_InitCond_HI\<lparr> ic_DAP := 67 \<rparr>)
   \<and> (- 1 :: real) \<le> 1
   \<and> \<not> (0.96 :: real) \<le> cr_HI0 example_Crop * (1 + cr_dHI0 example_Crop / 100)"
  by (simp add: harvest_index_def example_Kst_def example_InitCond_HI_def
      example_InitCond_def example_Crop_def example_prof_def root_zone_water_def
      root_zone_counters_def round2_def py_round_def Let_def first_index_ge_def ebind_def
      upt_rec root_zone_step_def cover_factor_def nth_e_def div_e_def top_soil_step_def
      top_soil_water_def water_stress_def water_stress_thresholds_def
      relative_depletion_def stress_coefficient_def temperature_stress_def
      harvest_index_time_def harvest_index_yield_formation_def)

end
